theory Spec2Isabelle
  imports Main "HOL-Library.Word"
begin

unbundle bit_operations_syntax

section \<open>The voluntary-exit pipeline of \<^verbatim>\<open>cmd/validator/exitfuzz/process.go\<close>\<close>

text \<open>
  The development follows \<^verbatim>\<open>process.go\<close> function by function. A method of
  \<^verbatim>\<open>*command\<close> becomes a function from the receiver and the process-wide state to
  the error it returns (\<open>None\<close> for \<^verbatim>\<open>nil\<close>) together with the receiver and the
  process-wide state as the call leaves them, so that what a failing call has already
  changed stays visible. Functions that return a value and an error return a sum.
  Output written to the terminal for \<^verbatim>\<open>debug\<close> and \<^verbatim>\<open>verbose\<close> is not
  modelled.
\<close>

subsection \<open>Bytes, errors and the library functions used\<close>

type_synonym byte = "8 word"
type_synonym bytes = "byte list"

text \<open>
  Errors are built the way the source builds them: \<^verbatim>\<open>errors.New\<close> and
  \<^verbatim>\<open>fmt.Errorf\<close> give a message, \<^verbatim>\<open>errors.Wrap\<close> puts a message around an
  error, and a run-time panic (a nil dereference, a failed type assertion) is a value
  of its own.
\<close>

datatype error = New string | Wrap error string | Panic string

text \<open>Go's \<^verbatim>\<open>copy(dst, src)\<close>: the first \<open>min (len dst) (len src)\<close> elements of
  \<open>dst\<close> are overwritten.\<close>

definition copy :: "'a list \<Rightarrow> 'a list \<Rightarrow> 'a list" where
  "copy dst src = take (length dst) src @ drop (length src) dst"

text \<open>\<^verbatim>\<open>strings.HasPrefix\<close> and \<^verbatim>\<open>strings.TrimPrefix\<close>.\<close>

definition HasPrefix :: "string \<Rightarrow> string \<Rightarrow> bool" where
  "HasPrefix s p = (take (length p) s = p)"

definition TrimPrefix :: "string \<Rightarrow> string \<Rightarrow> string" where
  "TrimPrefix s p = (if HasPrefix s p then drop (length p) s else s)"

text \<open>\<^verbatim>\<open>encoding/hex\<close>: the value of a hexadecimal digit, \<^verbatim>\<open>hex.DecodeString\<close>
  (an invalid character is reported before an odd length), and the lower-case
  encoding that the verb \<^verbatim>\<open>%#x\<close> prints after \<^verbatim>\<open>0x\<close>; for no bytes
  it prints nothing.\<close>

definition fromHexChar :: "char \<Rightarrow> byte option" where
  "fromHexChar ch =
     (let n = (of_char ch :: nat) in
      if 48 \<le> n \<and> n \<le> 57 then Some (of_nat (n - 48))
      else if 97 \<le> n \<and> n \<le> 102 then Some (of_nat (n - 97 + 10))
      else if 65 \<le> n \<and> n \<le> 70 then Some (of_nat (n - 65 + 10))
      else None)"

fun DecodeString :: "string \<Rightarrow> error + bytes" where
  "DecodeString [] = Inr []"
| "DecodeString [p] =
     (case fromHexChar p of
        None \<Rightarrow> Inl (New ''encoding/hex: invalid byte'')
      | Some a \<Rightarrow> Inl (New ''encoding/hex: odd length hex string''))"
| "DecodeString (p # q # rest) =
     (case fromHexChar p of
        None \<Rightarrow> Inl (New ''encoding/hex: invalid byte'')
      | Some a \<Rightarrow>
          (case fromHexChar q of
             None \<Rightarrow> Inl (New ''encoding/hex: invalid byte'')
           | Some b \<Rightarrow>
               (case DecodeString rest of
                  Inl e \<Rightarrow> Inl e
                | Inr bs \<Rightarrow> Inr ((push_bit 4 a OR b) # bs))))"

definition hexDigit :: "nat \<Rightarrow> char" where
  "hexDigit n = (if n < 10 then char_of (48 + n) else char_of (87 + n))"

definition EncodeToString :: "bytes \<Rightarrow> string" where
  "EncodeToString bs = concat (map (\<lambda>b. [hexDigit (unat b div 16), hexDigit (unat b mod 16)]) bs)"

definition sprintf_hash_x :: "bytes \<Rightarrow> string" where
  "sprintf_hash_x bs = (if bs = [] then '''' else ''0x'' @ EncodeToString bs)"

text \<open>The verb \<^verbatim>\<open>%d\<close> on an unsigned and on a signed integer.\<close>

fun decimal :: "nat \<Rightarrow> string" where
  "decimal n = (if n < 10 then [char_of (48 + n)] else decimal (n div 10) @ [char_of (48 + n mod 10)])"

declare decimal.simps [simp del]

definition sprintf_d :: "int \<Rightarrow> string" where
  "sprintf_d i = (if i < 0 then CHR ''-'' # decimal (nat (- i)) else decimal (nat i))"

subsection \<open>The data of the exit operation\<close>

text \<open>\<^verbatim>\<open>phase0.VoluntaryExit\<close>, \<^verbatim>\<open>phase0.SignedVoluntaryExit\<close>,
  \<^verbatim>\<open>phase0.ForkData\<close> and \<^verbatim>\<open>phase0.SigningData\<close>; epochs and validator indices
  are \<^verbatim>\<open>uint64\<close>. Fixed-size byte arrays are byte lists; their lengths are stated
  where a result depends on them.\<close>

record VoluntaryExit =
  Epoch :: "64 word"
  ValidatorIndex :: "64 word"

record SignedVoluntaryExit =
  Message :: VoluntaryExit
  Signature :: bytes

record ForkData =
  CurrentVersion :: bytes
  GenesisValidatorsRoot :: bytes

record SigningData =
  ObjectRoot :: bytes
  SigningDomain :: bytes

text \<open>\<^verbatim>\<open>beacon.ValidatorInfo\<close> and \<^verbatim>\<open>beacon.ChainInfo\<close>, with the fields
  that \<^verbatim>\<open>process.go\<close> reads.\<close>

record ValidatorInfo =
  Index :: "64 word"
  Pubkey :: bytes

record ChainInfo =
  Validators :: "ValidatorInfo list"
  ChainEpoch :: "64 word"
  VoluntaryExitDomainType :: bytes
  ChainGenesisValidatorsRoot :: bytes
  CurrentForkVersion :: bytes

subsection \<open>Process-wide state\<close>

text \<open>
  The state outside the receiver: the two \<^verbatim>\<open>viper\<close> settings, the global source of
  \<^verbatim>\<open>math/rand\<close>, and the operations handed to the beacon node's
  \<^verbatim>\<open>SubmitVoluntaryExit\<close>, newest first. The source of random numbers is a stream
  of raw draws and the position reached in it; \<^verbatim>\<open>rand.Intn n\<close> reduces the next draw
  into \<open>[0, n)\<close>, \<^verbatim>\<open>rand.Int63\<close> into \<open>[0, 2^63)\<close>, and \<^verbatim>\<open>rand.Read\<close>
  takes one draw per byte. \<^verbatim>\<open>rand.Seed\<close> restarts the source on the stream that
  belongs to the seed.
\<close>

record globals =
  viper_fuzziness :: int
  viper_seed :: int
  rand_stream :: "nat \<Rightarrow> nat"
  rand_pos :: nat
  seeded_stream :: "int \<Rightarrow> nat \<Rightarrow> nat"
  submitted :: "SignedVoluntaryExit option list"

definition rand_Intn :: "nat \<Rightarrow> globals \<Rightarrow> int \<times> globals" where
  "rand_Intn n g = (int (rand_stream g (rand_pos g) mod n), g\<lparr>rand_pos := rand_pos g + 1\<rparr>)"

definition rand_Int63 :: "globals \<Rightarrow> int \<times> globals" where
  "rand_Int63 g = (int (rand_stream g (rand_pos g) mod 2 ^ 63), g\<lparr>rand_pos := rand_pos g + 1\<rparr>)"

definition rand_Read :: "nat \<Rightarrow> globals \<Rightarrow> bytes \<times> globals" where
  "rand_Read n g =
     (map (\<lambda>k. of_nat (rand_stream g (rand_pos g + k))) [0..<n], g\<lparr>rand_pos := rand_pos g + n\<rparr>)"

definition rand_Seed :: "int \<Rightarrow> globals \<Rightarrow> globals" where
  "rand_Seed s g = g\<lparr>rand_stream := seeded_stream g s, rand_pos := 0\<rparr>"

subsection \<open>The fuzz injector\<close>

definition FuzzinessAct :: "globals \<Rightarrow> bool \<times> globals" where
  "FuzzinessAct g = (case rand_Intn 100 g of (r, g') \<Rightarrow> (viper_fuzziness g > r, g'))"

text \<open>The operation is behind a pointer: the value returned is the updated operation.
  The receiver of \<^verbatim>\<open>fuzzExitMessage\<close> is read for \<^verbatim>\<open>debug\<close> output only and is
  left out.\<close>

definition fuzzExitMessage :: "VoluntaryExit \<Rightarrow> globals \<Rightarrow> VoluntaryExit \<times> globals" where
  "fuzzExitMessage operation g =
     (case FuzzinessAct g of (act1, g1) \<Rightarrow>
      case (if act1
            then (case rand_Intn 1000000 g1 of (v, g') \<Rightarrow>
                    (operation\<lparr>ValidatorIndex := of_int v\<rparr>, g'))
            else (operation, g1)) of (operation1, g2) \<Rightarrow>
      case FuzzinessAct g2 of (act2, g3) \<Rightarrow>
      (if act2
       then (case rand_Intn 1000000 g3 of (v, g') \<Rightarrow> (operation1\<lparr>Epoch := of_int v\<rparr>, g'))
       else (operation1, g3)))"

definition fuzzExitMessageWithRoot ::
    "VoluntaryExit \<Rightarrow> bytes \<Rightarrow> globals \<Rightarrow> (VoluntaryExit \<times> bytes) \<times> globals" where
  "fuzzExitMessageWithRoot operation root g =
     (case fuzzExitMessage operation g of (operation', g1) \<Rightarrow>
      case FuzzinessAct g1 of (act, g2) \<Rightarrow>
      (if act
       then (case rand_Read 32 g2 of (testcase, g3) \<Rightarrow> ((operation', copy root testcase), g3))
       else ((operation', root), g2)))"

definition fuzzExitMessageWithSignature ::
    "VoluntaryExit \<Rightarrow> bytes \<Rightarrow> globals \<Rightarrow> (VoluntaryExit \<times> bytes) \<times> globals" where
  "fuzzExitMessageWithSignature operation signature g =
     (case fuzzExitMessage operation g of (operation', g1) \<Rightarrow>
      case FuzzinessAct g1 of (act, g2) \<Rightarrow>
      (if act
       then (case rand_Read 96 g2 of (testcase, g3) \<Rightarrow> ((operation', copy signature testcase), g3))
       else ((operation', signature), g2)))"

definition InitializeFuzzingSeed :: "globals \<Rightarrow> int \<times> globals" where
  "InitializeFuzzingSeed g =
     (case (if viper_seed g = 0 then rand_Int63 g else (viper_seed g, g)) of (s, g') \<Rightarrow> (s, rand_Seed s g'))"

subsection \<open>The receiver and its collaborators\<close>

text \<open>
  The beacon node as \<^verbatim>\<open>process.go\<close> uses it: which of the provider interfaces the
  connected client implements (a type assertion on a missing one panics), and its
  answer to \<^verbatim>\<open>SubmitVoluntaryExit\<close>.
\<close>

record client =
  isGenesisTimeProvider :: bool
  isSpecProvider :: bool
  isVoluntaryExitSubmitter :: bool
  SubmitVoluntaryExit :: "SignedVoluntaryExit option \<Rightarrow> error option"

text \<open>The fields of \<^verbatim>\<open>command\<close> that \<^verbatim>\<open>process.go\<close> reads or writes, but for
  \<^verbatim>\<open>debug\<close> and \<^verbatim>\<open>verbose\<close>. A nil \<^verbatim>\<open>signedOperation\<close> or
  \<^verbatim>\<open>consensusClient\<close> is \<open>None\<close>.\<close>

record command =
  mnemonic :: string
  path :: string
  privateKey :: string
  validator :: string
  signedOperationInput :: string
  genesisValidatorsRoot :: string
  forkVersion :: string
  json :: bool
  offline :: bool
  prepareOffline :: bool
  connection :: string
  timeout :: nat
  allowInsecureConnections :: bool
  consensusClient :: "client option"
  chainTime :: "unit option"
  chainInfo :: ChainInfo
  domain :: bytes
  signedOperation :: "SignedVoluntaryExit option"

text \<open>
  What \<^verbatim>\<open>process.go\<close> calls and does not define is a parameter of the model: the
  packages \<^verbatim>\<open>util\<close>, \<^verbatim>\<open>signing\<close>, \<^verbatim>\<open>beacon\<close> and
  \<^verbatim>\<open>chaintime\<close>, the wallet, BLS and hash-tree-root libraries, the file system,
  the JSON decoder of the signed operation, and the two methods \<^verbatim>\<open>obtainChainInfo\<close>
  and \<^verbatim>\<open>writeChainInfoToFile\<close> of the receiver. An account is a value of the
  type \<open>'acc\<close>; a private key, a public key and a signature are their serialised
  bytes, and parsing one answers with the error or \<open>None\<close>.
  \<^verbatim>\<open>json.Unmarshal\<close> is given the pointer it decodes into and answers with the
  error and the pointer as it leaves it.
\<close>

record 'acc env =
  SeedFromMnemonic :: "string \<Rightarrow> error + bytes"
  FetchValidatorInfo :: "ChainInfo \<Rightarrow> string \<Rightarrow> error + ValidatorInfo"
  PrivateKeyFromSeedAndPath :: "bytes \<Rightarrow> string \<Rightarrow> error + bytes"
  PublicKeyMarshal :: "bytes \<Rightarrow> bytes"
  ParseAccount :: "string \<Rightarrow> string list option \<Rightarrow> bool \<Rightarrow> error + 'acc"
  BestPublicKey :: "'acc \<Rightarrow> error + bytes"
  SignRoot :: "'acc \<Rightarrow> bytes \<Rightarrow> bytes \<Rightarrow> error + bytes"
  VoluntaryExit_HashTreeRoot :: "VoluntaryExit \<Rightarrow> error + bytes"
  ForkData_HashTreeRoot :: "ForkData \<Rightarrow> error + bytes"
  ssz_HashTreeRoot :: "SigningData \<Rightarrow> error + bytes"
  BLSSignatureFromBytes :: "bytes \<Rightarrow> error option"
  BLSPublicKeyFromBytes :: "bytes \<Rightarrow> error option"
  Verify :: "bytes \<Rightarrow> bytes \<Rightarrow> bytes \<Rightarrow> bool"
  os_Stat :: "string \<Rightarrow> error option"
  os_ReadFile :: "string \<Rightarrow> error + string"
  json_Unmarshal ::
    "string \<Rightarrow> SignedVoluntaryExit option \<Rightarrow> error option \<times> SignedVoluntaryExit option"
  ConnectToBeaconNode :: "string \<Rightarrow> nat \<Rightarrow> bool \<Rightarrow> error + client"
  chaintime_New :: "client \<Rightarrow> error option"
  obtainChainInfo :: "command \<Rightarrow> error + ChainInfo"
  writeChainInfoToFile :: "command \<Rightarrow> error option"

subsection \<open>Constants\<close>

definition offlinePreparationFilename :: string where
  "offlinePreparationFilename = ''offline-preparation.json''"

definition exitOperationFilename :: string where
  "exitOperationFilename = ''exit-operation.json''"

definition RootLength :: nat where
  "RootLength = 32"

definition ForkVersionLength :: nat where
  "ForkVersionLength = 4"

text \<open>The regular expression \<^verbatim>\<open>^m/12381/3600/[0-9]+/0/0$\<close>: the fixed prefix, one or
  more decimal digits, the fixed suffix, and nothing else.\<close>

definition isDigit :: "char \<Rightarrow> bool" where
  "isDigit ch = (48 \<le> (of_char ch :: nat) \<and> (of_char ch :: nat) \<le> 57)"

definition validatorPath_Match :: "string \<Rightarrow> bool" where
  "validatorPath_Match s =
     (HasPrefix s ''m/12381/3600/'' \<and>
      (let rest = drop 13 s in
       4 \<le> length rest \<and> drop (length rest - 4) rest = ''/0/0'' \<and>
       (let ds = take (length rest - 4) rest in ds \<noteq> [] \<and> list_all isDigit ds)))"

subsection \<open>Building and verifying the signed operation\<close>

definition createSignedOperation ::
    "'acc env \<Rightarrow> command \<Rightarrow> ValidatorInfo \<Rightarrow> 'acc \<Rightarrow> 64 word \<Rightarrow> globals
      \<Rightarrow> (error + SignedVoluntaryExit) \<times> globals" where
  "createSignedOperation env c validatorInfo account epoch g =
     (case InitializeFuzzingSeed g of (s, g0) \<Rightarrow>
      case BestPublicKey env account of
        Inl e \<Rightarrow> (Inl e, g0)
      | Inr pubkey \<Rightarrow>
          (case fuzzExitMessage \<lparr>Epoch = epoch, ValidatorIndex = Index validatorInfo\<rparr> g0 of
             (operation1, g1) \<Rightarrow>
          case VoluntaryExit_HashTreeRoot env operation1 of
            Inl e \<Rightarrow> (Inl (Wrap e ''failed to generate root for exit operation''), g1)
          | Inr root \<Rightarrow>
              (case fuzzExitMessageWithRoot operation1 root g1 of
                 ((operation2, root2), g2) \<Rightarrow>
               case SignRoot env account root2 (domain c) of
                 Inl e \<Rightarrow> (Inl (Wrap e ''failed to sign exit operation''), g2)
               | Inr signature \<Rightarrow>
                   (case fuzzExitMessageWithSignature operation2 signature g2 of
                      ((operation3, signature3), g3) \<Rightarrow>
                        (Inr \<lparr>Message = operation3, Signature = signature3\<rparr>, g3)))))"

definition verifySignedOperation ::
    "'acc env \<Rightarrow> command \<Rightarrow> SignedVoluntaryExit option \<Rightarrow> error option" where
  "verifySignedOperation env c opp =
     (case opp of
        None \<Rightarrow> Some (Panic ''invalid memory address or nil pointer dereference'')
      | Some op \<Rightarrow>
     (case VoluntaryExit_HashTreeRoot env (Message op) of
        Inl e \<Rightarrow> Some (Wrap e ''failed to generate message root'')
      | Inr root \<Rightarrow>
     (case BLSSignatureFromBytes env (Signature op) of
        Some e \<Rightarrow> Some (New ''invalid signature'')
      | None \<Rightarrow>
     (case ssz_HashTreeRoot env \<lparr>ObjectRoot = root, SigningDomain = domain c\<rparr> of
        Inl e \<Rightarrow> Some (Wrap e ''failed to generate signing root'')
      | Inr signingRoot \<Rightarrow>
     (case FetchValidatorInfo env (chainInfo c)
             (decimal (unat (ValidatorIndex (Message op)))) of
        Inl e \<Rightarrow> Some e
      | Inr validatorInfo \<Rightarrow>
     (case BLSPublicKeyFromBytes env (Pubkey validatorInfo) of
        Some e \<Rightarrow> Some (Wrap e ''invalid public key'')
      | None \<Rightarrow>
          if \<not> Verify env (Signature op) signingRoot (Pubkey validatorInfo)
          then Some (New ''signature does not verify'')
          else None))))))"

definition validateOperation :: "command \<Rightarrow> bool \<times> string" where
  "validateOperation c = (True, '''')"

definition broadcastOperation ::
    "command \<Rightarrow> globals \<Rightarrow> error option \<times> command \<times> globals" where
  "broadcastOperation c g =
     (case consensusClient c of
        None \<Rightarrow> (Some (Panic ''interface conversion: interface is nil''), c, g)
      | Some cl \<Rightarrow>
          if \<not> isVoluntaryExitSubmitter cl
          then (Some (Panic ''interface conversion: missing method SubmitVoluntaryExit''), c, g)
          else (SubmitVoluntaryExit cl (signedOperation c), c,
                g\<lparr>submitted := signedOperation c # submitted g\<rparr>))"

subsection \<open>The signing domain\<close>

definition obtainGenesisValidatorsRoot :: "command \<Rightarrow> error + bytes" where
  "obtainGenesisValidatorsRoot c =
     (if genesisValidatorsRoot c \<noteq> ''''
      then (case DecodeString (TrimPrefix (genesisValidatorsRoot c) ''0x'') of
              Inl e \<Rightarrow> Inl (Wrap e ''invalid genesis validators root supplied'')
            | Inr root \<Rightarrow>
                if length root \<noteq> RootLength
                then Inl (New ''invalid length for genesis validators root'')
                else Inr (copy (replicate 32 0) root))
      else Inr (copy (replicate 32 0) (ChainGenesisValidatorsRoot (chainInfo c))))"

definition obtainForkVersion :: "command \<Rightarrow> error + bytes" where
  "obtainForkVersion c =
     (if forkVersion c \<noteq> ''''
      then (case DecodeString (TrimPrefix (forkVersion c) ''0x'') of
              Inl e \<Rightarrow> Inl (Wrap e ''invalid fork version supplied'')
            | Inr version \<Rightarrow>
                if length version \<noteq> ForkVersionLength
                then Inl (New ''invalid length for fork version'')
                else Inr (copy (replicate 4 0) version))
      else Inr (copy (replicate 4 0) (CurrentForkVersion (chainInfo c))))"

text \<open>\<^verbatim>\<open>copy(c.domain[4:], root[:])\<close> writes behind the first four bytes of the
  domain.\<close>

definition generateDomain :: "'acc env \<Rightarrow> command \<Rightarrow> error option \<times> command" where
  "generateDomain env c =
     (case obtainGenesisValidatorsRoot c of
        Inl e \<Rightarrow> (Some e, c)
      | Inr gvr \<Rightarrow>
     (case obtainForkVersion c of
        Inl e \<Rightarrow> (Some e, c)
      | Inr fv \<Rightarrow>
     (case ForkData_HashTreeRoot env \<lparr>CurrentVersion = fv, GenesisValidatorsRoot = gvr\<rparr> of
        Inl e \<Rightarrow> (Some (Wrap e ''failed to calculate signature domain''), c)
      | Inr root \<Rightarrow>
          (let d1 = copy (domain c) (VoluntaryExitDomainType (chainInfo c));
               d2 = take 4 d1 @ copy (drop 4 d1) root
           in (None, c\<lparr>domain := d2\<rparr>)))))"

subsection \<open>Obtaining the operation\<close>

definition generateOperationFromAccount ::
    "'acc env \<Rightarrow> command \<Rightarrow> ValidatorInfo \<Rightarrow> 'acc \<Rightarrow> 64 word \<Rightarrow> globals
      \<Rightarrow> error option \<times> command \<times> globals" where
  "generateOperationFromAccount env c validatorInfo account epoch g =
     (case createSignedOperation env c validatorInfo account epoch g of
        (Inl e, g') \<Rightarrow> (Some e, c\<lparr>signedOperation := None\<rparr>, g')
      | (Inr sop, g') \<Rightarrow> (None, c\<lparr>signedOperation := Some sop\<rparr>, g'))"

definition generateOperationFromPrivateKey ::
    "'acc env \<Rightarrow> command \<Rightarrow> globals \<Rightarrow> error option \<times> command \<times> globals" where
  "generateOperationFromPrivateKey env c g =
     (case ParseAccount env (privateKey c) None True of
        Inl e \<Rightarrow> (Some (Wrap e ''failed to create validator account''), c, g)
      | Inr validatorAccount \<Rightarrow>
     (case BestPublicKey env validatorAccount of
        Inl e \<Rightarrow> (Some e, c, g)
      | Inr validatorPubkey \<Rightarrow>
     (case FetchValidatorInfo env (chainInfo c) (sprintf_hash_x validatorPubkey) of
        Inl e \<Rightarrow> (Some e, c, g)
      | Inr validatorInfo \<Rightarrow>
          generateOperationFromAccount env c validatorInfo validatorAccount
            (ChainEpoch (chainInfo c)) g)))"

definition generateOperationFromValidator ::
    "'acc env \<Rightarrow> command \<Rightarrow> globals \<Rightarrow> error option \<times> command \<times> globals" where
  "generateOperationFromValidator env c g =
     (case FetchValidatorInfo env (chainInfo c) (validator c) of
        Inl e \<Rightarrow> (Some e, c, g)
      | Inr validatorInfo \<Rightarrow>
     (case ParseAccount env (validator c) None True of
        Inl e \<Rightarrow> (Some e, c, g)
      | Inr validatorAccount \<Rightarrow>
          generateOperationFromAccount env c validatorInfo validatorAccount
            (ChainEpoch (chainInfo c)) g))"

text \<open>The map of validators by public key that the caller builds is passed and not
  read.\<close>

definition generateOperationFromSeedAndPath ::
    "'acc env \<Rightarrow> command \<Rightarrow> (string \<rightharpoonup> ValidatorInfo) \<Rightarrow> bytes \<Rightarrow> string \<Rightarrow> globals
      \<Rightarrow> error option \<times> command \<times> globals" where
  "generateOperationFromSeedAndPath env c validators sd pth g =
     (case PrivateKeyFromSeedAndPath env sd pth of
        Inl e \<Rightarrow> (Some (Wrap e ''failed to generate validator private key''), c, g)
      | Inr validatorPrivkey \<Rightarrow>
          generateOperationFromPrivateKey env
            (c\<lparr>privateKey := sprintf_hash_x validatorPrivkey\<rparr>) g)"

definition generateOperationFromMnemonicAndPath ::
    "'acc env \<Rightarrow> command \<Rightarrow> globals \<Rightarrow> error option \<times> command \<times> globals" where
  "generateOperationFromMnemonicAndPath env c g =
     (case SeedFromMnemonic env (mnemonic c) of
        Inl e \<Rightarrow> (Some e, c, g)
      | Inr sd \<Rightarrow>
          (let validators =
                 fold (\<lambda>v m. m(sprintf_hash_x (Pubkey v) \<mapsto> v)) (Validators (chainInfo c)) Map.empty;
               validatorKeyPath = path c
           in if \<not> validatorPath_Match (path c)
              then (Some (New (''path '' @ path c @
                      '' does not match EIP-2334 format for a validator'')), c, g)
              else (case generateOperationFromSeedAndPath env c validators sd validatorKeyPath g of
                      (Some e, c', g') \<Rightarrow>
                        (Some (Wrap e ''failed to generate operation from seed and path''), c', g')
                    | (None, c', g') \<Rightarrow> (None, c', g'))))"

text \<open>
  The scan of the validator keys. The loop counter is a Go \<^verbatim>\<open>int\<close>, 64 bits wide;
  the loop leaves when the counter equals \<^verbatim>\<open>maxDistance\<close>, which every start
  reaches.
\<close>

definition maxDistance :: "64 word" where
  "maxDistance = 1024"

definition scanKeyPath :: "64 word \<Rightarrow> string" where
  "scanKeyPath i = ''m/12381/3600/'' @ sprintf_d (sint i) @ ''/0/0''"

function scanValidatorKeys ::
    "'acc env \<Rightarrow> command \<Rightarrow> bytes \<Rightarrow> ValidatorInfo \<Rightarrow> 64 word \<Rightarrow> globals
      \<Rightarrow> error option \<times> command \<times> globals" where
  "scanValidatorKeys env c sd validatorInfo i g =
     (if i = maxDistance then (None, c, g)
      else
        (case PrivateKeyFromSeedAndPath env sd (scanKeyPath i) of
           Inl e \<Rightarrow> (Some (Wrap e ''failed to generate validator private key''), c, g)
         | Inr validatorPrivkey \<Rightarrow>
             if PublicKeyMarshal env validatorPrivkey = Pubkey validatorInfo
             then (case ParseAccount env (mnemonic c) (Some [scanKeyPath i]) True of
                     Inl e \<Rightarrow> (Some (Wrap e ''failed to create withdrawal account''), c, g)
                   | Inr validatorAccount \<Rightarrow>
                       generateOperationFromAccount env c validatorInfo validatorAccount
                         (ChainEpoch (chainInfo c)) g)
             else scanValidatorKeys env c sd validatorInfo (i + 1) g))"
  by pat_completeness auto
termination
proof (relation "measure (\<lambda>(env, c, sd, validatorInfo, i, g). unat (maxDistance - i))")
  show "wf (measure (\<lambda>(env :: 'acc env, c :: command, sd :: bytes, validatorInfo :: ValidatorInfo,
                        i :: 64 word, g :: globals). unat (maxDistance - i)))"
    by simp
next
  fix env :: "'acc env" and c :: command and sd :: bytes and validatorInfo :: ValidatorInfo
    and i :: "64 word" and g :: globals and x2 :: bytes
  assume ne: "i \<noteq> maxDistance"
  have nz: "maxDistance - i \<noteq> 0"
    using ne by simp
  have "unat (maxDistance - (i + 1)) = unat ((maxDistance - i) - 1)"
    by (simp add: algebra_simps)
  also have "\<dots> < unat (maxDistance - i)"
    using nz by (rule measure_unat)
  finally have lt: "unat (maxDistance - (i + 1)) < unat (maxDistance - i)" .
  show "((env, c, sd, validatorInfo, i + 1, g), (env, c, sd, validatorInfo, i, g))
      \<in> measure (\<lambda>(env, c, sd, validatorInfo, i, g). unat (maxDistance - i))"
    using lt by (simp only: in_measure prod.case)
qed

declare scanValidatorKeys.simps [simp del]

definition generateOperationFromMnemonicAndValidator ::
    "'acc env \<Rightarrow> command \<Rightarrow> globals \<Rightarrow> error option \<times> command \<times> globals" where
  "generateOperationFromMnemonicAndValidator env c g =
     (case SeedFromMnemonic env (mnemonic c) of
        Inl e \<Rightarrow> (Some e, c, g)
      | Inr sd \<Rightarrow>
     (case FetchValidatorInfo env (chainInfo c) (validator c) of
        Inl e \<Rightarrow> (Some e, c, g)
      | Inr validatorInfo \<Rightarrow> scanValidatorKeys env c sd validatorInfo 0 g))"

definition obtainOperationFromFile ::
    "'acc env \<Rightarrow> command \<Rightarrow> error option \<times> command" where
  "obtainOperationFromFile env c =
     (case os_Stat env exitOperationFilename of
        Some e \<Rightarrow> (Some (Wrap e ''failed to read exit operation file''), c)
      | None \<Rightarrow>
     (case os_ReadFile env exitOperationFilename of
        Inl e \<Rightarrow> (Some (Wrap e ''failed to read exit operation file''), c)
      | Inr data \<Rightarrow>
     (case json_Unmarshal env data (signedOperation c) of
        (Some e, sop) \<Rightarrow>
          (Some (Wrap e ''failed to parse exit operation file''), c\<lparr>signedOperation := sop\<rparr>)
      | (None, sop) \<Rightarrow>
          (verifySignedOperation env (c\<lparr>signedOperation := sop\<rparr>) sop,
           c\<lparr>signedOperation := sop\<rparr>))))"

definition obtainOperationFromInput ::
    "'acc env \<Rightarrow> command \<Rightarrow> error option \<times> command" where
  "obtainOperationFromInput env c =
     (case (if \<not> HasPrefix (signedOperationInput c) ''{''
            then (case os_ReadFile env (signedOperationInput c) of
                    Inl e \<Rightarrow> Inl (Wrap e ''failed to read input file'')
                  | Inr data \<Rightarrow> Inr (c\<lparr>signedOperationInput := data\<rparr>))
            else Inr c) of
        Inl e \<Rightarrow> (Some e, c)
      | Inr c1 \<Rightarrow>
     (case json_Unmarshal env (signedOperationInput c1) (signedOperation c1) of
        (Some e, sop) \<Rightarrow>
          (Some (Wrap e ''failed to parse exit operation input''), c1\<lparr>signedOperation := sop\<rparr>)
      | (None, sop) \<Rightarrow>
          (verifySignedOperation env (c1\<lparr>signedOperation := sop\<rparr>) sop,
           c1\<lparr>signedOperation := sop\<rparr>)))"

definition obtainOperationFromFileOrInput ::
    "'acc env \<Rightarrow> command \<Rightarrow> error option \<times> command" where
  "obtainOperationFromFileOrInput env c =
     (if signedOperationInput c \<noteq> '''' then obtainOperationFromInput env c
      else obtainOperationFromFile env c)"

definition obtainOperation ::
    "'acc env \<Rightarrow> command \<Rightarrow> globals \<Rightarrow> error option \<times> command \<times> globals" where
  "obtainOperation env c g =
     (if (mnemonic c = '''' \<or> path c = '''') \<and> privateKey c = '''' \<and> validator c = ''''
      then (case obtainOperationFromFileOrInput env c of
              (None, c') \<Rightarrow> (None, c', g)
            | (Some e, c') \<Rightarrow>
                if signedOperationInput c' \<noteq> ''''
                then (Some (Wrap e ''failed to obtain supplied signed operation''), c', g)
                else (Some (Wrap e (''no account, mnemonic or private key specified, and no '' @
                        exitOperationFilename @ '' file loaded'')), c', g))
      else if mnemonic c \<noteq> ''''
      then (if path c \<noteq> '''' then generateOperationFromMnemonicAndPath env c g
            else if validator c \<noteq> '''' then generateOperationFromMnemonicAndValidator env c g
            else (Some (New ''mnemonic must be supplied with either a path or validator''), c, g))
      else if privateKey c \<noteq> '''' then generateOperationFromPrivateKey env c g
      else if validator c \<noteq> '''' then generateOperationFromValidator env c g
      else (Some (New
              ''unsupported combination of inputs; see help for details of supported combinations''),
            c, g))"

subsection \<open>The workflow\<close>

text \<open>The method \<^verbatim>\<open>setup\<close> of the receiver is \<open>setupCommand\<close> here.\<close>

definition setupCommand :: "'acc env \<Rightarrow> command \<Rightarrow> error option \<times> command" where
  "setupCommand env c =
     (if offline c then (None, c)
      else
        (case ConnectToBeaconNode env (connection c) (timeout c) (allowInsecureConnections c) of
           Inl e \<Rightarrow>
             (Some (Wrap e ''failed to connect to consensus node''), c\<lparr>consensusClient := None\<rparr>)
         | Inr cl \<Rightarrow>
             (let c1 = c\<lparr>consensusClient := Some cl\<rparr>
              in if \<not> isGenesisTimeProvider cl
                 then (Some (Panic ''interface conversion: missing method GenesisTime''), c1)
                 else if \<not> isSpecProvider cl
                 then (Some (Panic ''interface conversion: missing method Spec''), c1)
                 else (case chaintime_New env cl of
                         Some e \<Rightarrow>
                           (Some (Wrap e ''failed to create chaintime service''),
                            c1\<lparr>chainTime := None\<rparr>)
                       | None \<Rightarrow> (None, c1\<lparr>chainTime := Some ()\<rparr>)))))"

definition process ::
    "'acc env \<Rightarrow> command \<Rightarrow> globals \<Rightarrow> error option \<times> command \<times> globals" where
  "process env c g =
     (case setupCommand env c of
        (Some e, c1) \<Rightarrow> (Some e, c1, g)
      | (None, c1) \<Rightarrow>
     (case obtainChainInfo env c1 of
        Inl e \<Rightarrow> (Some e, c1, g)
      | Inr ci \<Rightarrow>
          (let c2 = c1\<lparr>chainInfo := ci\<rparr>
           in if prepareOffline c2 then (writeChainInfoToFile env c2, c2, g)
              else
                (case generateDomain env c2 of
                   (Some e, c3) \<Rightarrow> (Some e, c3, g)
                 | (None, c3) \<Rightarrow>
                (case obtainOperation env c3 g of
                   (Some e, c4, g4) \<Rightarrow> (Some e, c4, g4)
                 | (None, c4, g4) \<Rightarrow>
                (case validateOperation c4 of
                   (validated, reason) \<Rightarrow>
                     if \<not> validated
                     then (Some (New (''operation failed validation: '' @ reason)), c4, g4)
                     else if json c4 \<or> offline c4 then (None, c4, g4)
                     else broadcastOperation c4 g4))))))"

subsection \<open>A test double for the collaborators\<close>

text \<open>
  Concrete collaborators on which the model runs: an account is its private key, the
  private key of a seed at a path is the bytes of the path, the public key of a
  private key is the key reversed, the root of an exit message is its two fields cut
  to a byte each, the signing root is the object root followed by the domain, and a
  signature is the public key followed by the signing root, which is what
  \<open>Verify\<close> checks. The file system holds one file, \<^verbatim>\<open>exit-operation.json\<close>,
  whose content is not JSON; the decoder accepts the text \<^verbatim>\<open>{ok}\<close> only. The
  beacon node accepts every submission.
\<close>

definition stub_bytes :: "string \<Rightarrow> bytes" where
  "stub_bytes s = map (\<lambda>ch. of_nat (of_char ch)) s"

definition stub_validator :: ValidatorInfo where
  "stub_validator = \<lparr>Index = 7, Pubkey = [3, 2, 1]\<rparr>"

definition stub_chainInfo :: ChainInfo where
  "stub_chainInfo =
     \<lparr>Validators = [stub_validator], ChainEpoch = 5, VoluntaryExitDomainType = [4, 0, 0, 0],
      ChainGenesisValidatorsRoot = replicate 32 9, CurrentForkVersion = [1, 0, 0, 0]\<rparr>"

definition stub_operation :: SignedVoluntaryExit where
  "stub_operation = \<lparr>Message = \<lparr>Epoch = 5, ValidatorIndex = 7\<rparr>, Signature = [0]\<rparr>"

definition stub_client :: client where
  "stub_client =
     \<lparr>isGenesisTimeProvider = True, isSpecProvider = True, isVoluntaryExitSubmitter = True,
      SubmitVoluntaryExit = (\<lambda>sop. None)\<rparr>"

definition stub_FetchValidatorInfo :: "ChainInfo \<Rightarrow> string \<Rightarrow> error + ValidatorInfo" where
  "stub_FetchValidatorInfo ci ident =
     (case List.find (\<lambda>v. decimal (unat (Index v)) = ident \<or> sprintf_hash_x (Pubkey v) = ident)
             (Validators ci) of
        None \<Rightarrow> Inl (New ''unknown validator'')
      | Some v \<Rightarrow> Inr v)"

definition stub_ParseAccount :: "string \<Rightarrow> string list option \<Rightarrow> bool \<Rightarrow> error + bytes" where
  "stub_ParseAccount s paths unlock =
     (case paths of
        Some [p] \<Rightarrow> Inr (stub_bytes p)
      | _ \<Rightarrow> DecodeString (TrimPrefix s ''0x''))"

definition stub_env :: "bytes env" where
  "stub_env =
     \<lparr>SeedFromMnemonic = (\<lambda>m. Inr (stub_bytes m)),
      FetchValidatorInfo = stub_FetchValidatorInfo,
      PrivateKeyFromSeedAndPath = (\<lambda>sd p. Inr (stub_bytes p)),
      PublicKeyMarshal = rev,
      ParseAccount = stub_ParseAccount,
      BestPublicKey = (\<lambda>a. Inr (rev a)),
      SignRoot = (\<lambda>a root dom. Inr (rev a @ root @ dom)),
      VoluntaryExit_HashTreeRoot = (\<lambda>m. Inr [ucast (Epoch m), ucast (ValidatorIndex m)]),
      ForkData_HashTreeRoot = (\<lambda>fd. Inr (CurrentVersion fd @ take 28 (GenesisValidatorsRoot fd))),
      ssz_HashTreeRoot = (\<lambda>sd. Inr (ObjectRoot sd @ SigningDomain sd)),
      BLSSignatureFromBytes = (\<lambda>s. None),
      BLSPublicKeyFromBytes = (\<lambda>k. None),
      Verify = (\<lambda>s msg k. s = k @ msg),
      os_Stat = (\<lambda>f. if f = ''exit-operation.json'' then None else Some (New ''no such file'')),
      os_ReadFile =
        (\<lambda>f. if f = ''exit-operation.json'' then Inr ''not json'' else Inl (New ''no such file'')),
      json_Unmarshal =
        (\<lambda>data p. if data = ''{ok}'' then (None, Some stub_operation)
                   else (Some (New ''invalid character''), p)),
      ConnectToBeaconNode = (\<lambda>address t insecure. Inr stub_client),
      chaintime_New = (\<lambda>cl. None),
      obtainChainInfo = (\<lambda>c. Inr stub_chainInfo),
      writeChainInfoToFile = (\<lambda>c. None)\<rparr>"

text \<open>A receiver with no input, and process-wide state whose random stream draws 99
  everywhere but at the positions listed.\<close>

definition stub_command :: command where
  "stub_command =
     \<lparr>mnemonic = '''', path = '''', privateKey = '''', validator = '''',
      signedOperationInput = '''', genesisValidatorsRoot = '''', forkVersion = '''',
      json = False, offline = False, prepareOffline = False,
      connection = ''localhost:5052'', timeout = 30, allowInsecureConnections = False,
      consensusClient = None, chainTime = None, chainInfo = stub_chainInfo,
      domain = replicate 32 0, signedOperation = None\<rparr>"

definition stub_globals :: "int \<Rightarrow> nat list \<Rightarrow> globals" where
  "stub_globals intensity low =
     \<lparr>viper_fuzziness = intensity, viper_seed = 1,
      rand_stream = (\<lambda>n. 99),
      rand_pos = 0,
      seeded_stream = (\<lambda>s n. if n \<in> set low then 0 else 99),
      submitted = []\<rparr>"

text \<open>A receiver that asks for the scan, with a mnemonic and the validator of index 9,
  whose public key is the one derived at the index \<open>j\<close>.\<close>

definition stub_scan_command :: "nat \<Rightarrow> command" where
  "stub_scan_command j =
     stub_command
       \<lparr>mnemonic := ''abandon'', validator := ''9'',
        chainInfo := stub_chainInfo
          \<lparr>Validators :=
             [\<lparr>Index = 9, Pubkey = rev (stub_bytes (''m/12381/3600/'' @ decimal j @ ''/0/0''))\<rparr>]\<rparr>\<rparr>"

subsection \<open>What obtaining an operation leaves alone\<close>

text \<open>The part of the receiver and of the process-wide state that no step before the
  broadcast writes: the flags of the run, the client, the record of submissions and
  the fuzz intensity.\<close>

definition kept ::
    "command \<Rightarrow> globals
      \<Rightarrow> bool \<times> bool \<times> bool \<times> client option \<times> SignedVoluntaryExit option list \<times> int" where
  "kept c g =
     (json c, offline c, prepareOffline c, consensusClient c, submitted g, viper_fuzziness g)"

section \<open>Properties\<close>

subsection \<open>The fuzz injector at its two extremes\<close>

lemma FuzzinessAct_eq:
  "FuzzinessAct g =
     (int (rand_stream g (rand_pos g) mod 100) < viper_fuzziness g, g\<lparr>rand_pos := rand_pos g + 1\<rparr>)"
  by (simp add: FuzzinessAct_def rand_Intn_def)

lemma draw_lt: "int (n mod 100) < 100"
  by simp

lemma fuzzExitMessage_zero:
  "viper_fuzziness g \<le> 0 \<Longrightarrow> fuzzExitMessage op g = (op, g\<lparr>rand_pos := rand_pos g + 2\<rparr>)"
  by (simp add: fuzzExitMessage_def FuzzinessAct_eq)

lemma fuzzExitMessageWithRoot_zero:
  "viper_fuzziness g \<le> 0 \<Longrightarrow>
   fuzzExitMessageWithRoot op root g = ((op, root), g\<lparr>rand_pos := rand_pos g + 3\<rparr>)"
  by (simp add: fuzzExitMessageWithRoot_def fuzzExitMessage_zero FuzzinessAct_eq)

lemma fuzzExitMessageWithSignature_zero:
  "viper_fuzziness g \<le> 0 \<Longrightarrow>
   fuzzExitMessageWithSignature op sig g = ((op, sig), g\<lparr>rand_pos := rand_pos g + 3\<rparr>)"
  by (simp add: fuzzExitMessageWithSignature_def fuzzExitMessage_zero FuzzinessAct_eq)

lemma FuzzinessAct_zero:
  "viper_fuzziness g \<le> 0 \<Longrightarrow> FuzzinessAct g = (False, g\<lparr>rand_pos := rand_pos g + 1\<rparr>)"
  by (simp add: FuzzinessAct_eq)

lemma FuzzinessAct_hundred:
  "100 \<le> viper_fuzziness g \<Longrightarrow> FuzzinessAct g = (True, g\<lparr>rand_pos := rand_pos g + 1\<rparr>)"
  using draw_lt [of "rand_stream g (rand_pos g)"] by (simp add: FuzzinessAct_eq)

lemma fuzzExitMessage_hundred:
  "100 \<le> viper_fuzziness g \<Longrightarrow>
   fuzzExitMessage op g =
     (op\<lparr>ValidatorIndex := of_nat (rand_stream g (rand_pos g + 1) mod 1000000),
         Epoch := of_nat (rand_stream g (rand_pos g + 3) mod 1000000)\<rparr>,
      g\<lparr>rand_pos := rand_pos g + 4\<rparr>)"
  by (simp add: fuzzExitMessage_def FuzzinessAct_hundred rand_Intn_def numeral_3_eq_3)

lemma fuzzExitMessageWithRoot_hundred:
  "100 \<le> viper_fuzziness g \<Longrightarrow>
   fuzzExitMessageWithRoot op root g =
     ((op\<lparr>ValidatorIndex := of_nat (rand_stream g (rand_pos g + 1) mod 1000000),
          Epoch := of_nat (rand_stream g (rand_pos g + 3) mod 1000000)\<rparr>,
       copy root (map (\<lambda>k. of_nat (rand_stream g (rand_pos g + 5 + k))) [0..<32])),
      g\<lparr>rand_pos := rand_pos g + 37\<rparr>)"
  by (simp add: fuzzExitMessageWithRoot_def fuzzExitMessage_hundred FuzzinessAct_hundred
      rand_Read_def ac_simps)

lemma fuzzExitMessageWithSignature_hundred:
  "100 \<le> viper_fuzziness g \<Longrightarrow>
   fuzzExitMessageWithSignature op sig g =
     ((op\<lparr>ValidatorIndex := of_nat (rand_stream g (rand_pos g + 1) mod 1000000),
          Epoch := of_nat (rand_stream g (rand_pos g + 3) mod 1000000)\<rparr>,
       copy sig (map (\<lambda>k. of_nat (rand_stream g (rand_pos g + 5 + k))) [0..<96])),
      g\<lparr>rand_pos := rand_pos g + 101\<rparr>)"
  by (simp add: fuzzExitMessageWithSignature_def fuzzExitMessage_hundred FuzzinessAct_hundred
      rand_Read_def ac_simps)

subsection \<open>Building at intensity 0\<close>

lemma InitializeFuzzingSeed_fuzziness [simp]:
  "viper_fuzziness (snd (InitializeFuzzingSeed g)) = viper_fuzziness g"
  by (simp add: InitializeFuzzingSeed_def rand_Seed_def rand_Int63_def)

lemma createSignedOperation_zero:
  assumes "viper_fuzziness g \<le> 0"
    and "createSignedOperation env c v a e g = (Inr sop, g')"
  shows "\<exists>root. VoluntaryExit_HashTreeRoot env \<lparr>Epoch = e, ValidatorIndex = Index v\<rparr> = Inr root \<and>
           Message sop = \<lparr>Epoch = e, ValidatorIndex = Index v\<rparr> \<and>
           SignRoot env a root (domain c) = Inr (Signature sop)"
proof -
  obtain s g0 where init: "InitializeFuzzingSeed g = (s, g0)"
    by (cases "InitializeFuzzingSeed g")
  have f0: "viper_fuzziness g0 \<le> 0"
    using assms(1) InitializeFuzzingSeed_fuzziness [of g] init by simp
  show ?thesis
    using assms(2) f0
    by (auto simp: createSignedOperation_def init fuzzExitMessage_zero fuzzExitMessageWithRoot_zero
          fuzzExitMessageWithSignature_zero split: sum.splits)
qed

lemma decimal_digit: "n < 10 \<Longrightarrow> decimal n = [char_of (48 + n)]"
  by (simp add: decimal.simps)

subsection \<open>The signing domain\<close>

lemma length_copy [simp]: "length (copy dst src) = length dst"
  by (simp add: copy_def)

lemma copy_same_length: "length src = length dst \<Longrightarrow> copy dst src = src"
  by (simp add: copy_def)

lemma obtainForkVersion_length: "obtainForkVersion c = Inr fv \<Longrightarrow> length fv = 4"
  by (auto simp: obtainForkVersion_def split: if_splits sum.splits)

lemma obtainGenesisValidatorsRoot_length:
  "obtainGenesisValidatorsRoot c = Inr gvr \<Longrightarrow> length gvr = 32"
  by (auto simp: obtainGenesisValidatorsRoot_def split: if_splits sum.splits)

lemma generateDomain_eq:
  assumes "obtainGenesisValidatorsRoot c = Inr gvr" and "obtainForkVersion c = Inr fv"
    and "ForkData_HashTreeRoot env \<lparr>CurrentVersion = fv, GenesisValidatorsRoot = gvr\<rparr> = Inr root"
    and "length root = 32" and "length (domain c) = 32"
    and "length (VoluntaryExitDomainType (chainInfo c)) = 4"
  shows "generateDomain env c =
    (None, c\<lparr>domain := VoluntaryExitDomainType (chainInfo c) @ take 28 root\<rparr>)"
  using assms by (simp add: generateDomain_def copy_def Let_def)

subsection \<open>The checkpoints inside the builder\<close>

lemma unat_of_draw: "unat (of_nat (x mod 1000000) :: 64 word) < 1000000"
proof -
  have "unat (of_nat (x mod 1000000) :: 64 word) \<le> x mod 1000000"
    unfolding unat_of_nat by (rule mod_less_eq_dividend)
  moreover have "x mod 1000000 < 1000000"
    by simp
  ultimately show ?thesis
    by (rule le_less_trans)
qed

lemma fuzzExitMessage_fields_bound:
  "(ValidatorIndex (fst (fuzzExitMessage op g)) = ValidatorIndex op \<or>
      unat (ValidatorIndex (fst (fuzzExitMessage op g))) < 1000000) \<and>
   (Epoch (fst (fuzzExitMessage op g)) = Epoch op \<or>
      unat (Epoch (fst (fuzzExitMessage op g))) < 1000000)"
  by (simp add: fuzzExitMessage_def FuzzinessAct_eq rand_Intn_def unat_of_draw)

lemma createSignedOperation_steps:
  assumes "createSignedOperation env c v a e g = (Inr sop, g')"
  shows "\<exists>op1 g1 root op2 root2 g2 signature.
      fuzzExitMessage \<lparr>Epoch = e, ValidatorIndex = Index v\<rparr> (snd (InitializeFuzzingSeed g)) = (op1, g1) \<and>
      VoluntaryExit_HashTreeRoot env op1 = Inr root \<and>
      fuzzExitMessageWithRoot op1 root g1 = ((op2, root2), g2) \<and>
      op2 = fst (fuzzExitMessage op1 g1) \<and>
      SignRoot env a root2 (domain c) = Inr signature \<and>
      fuzzExitMessageWithSignature op2 signature g2 = ((Message sop, Signature sop), g') \<and>
      Message sop = fst (fuzzExitMessage op2 g2)"
proof -
  obtain s g0 where init: "InitializeFuzzingSeed g = (s, g0)"
    by (cases "InitializeFuzzingSeed g")
  obtain op1 g1 where a: "fuzzExitMessage \<lparr>Epoch = e, ValidatorIndex = Index v\<rparr> g0 = (op1, g1)"
    by (cases "fuzzExitMessage \<lparr>Epoch = e, ValidatorIndex = Index v\<rparr> g0")
  from assms obtain pk where pk: "BestPublicKey env a = Inr pk"
    by (auto simp: createSignedOperation_def init split: sum.splits)
  from assms obtain root where root: "VoluntaryExit_HashTreeRoot env op1 = Inr root"
    by (auto simp: createSignedOperation_def init a pk split: sum.splits)
  obtain op2 root2 g2 where b: "fuzzExitMessageWithRoot op1 root g1 = ((op2, root2), g2)"
    by (metis surj_pair)
  from assms obtain signature where sg: "SignRoot env a root2 (domain c) = Inr signature"
    by (auto simp: createSignedOperation_def init a pk root b split: sum.splits)
  obtain op3 sig3 g3 where cc: "fuzzExitMessageWithSignature op2 signature g2 = ((op3, sig3), g3)"
    by (metis surj_pair)
  from assms have res: "sop = \<lparr>Message = op3, Signature = sig3\<rparr>" "g' = g3"
    by (auto simp: createSignedOperation_def init a pk root b sg cc)
  have m2: "op2 = fst (fuzzExitMessage op1 g1)"
    using b by (auto simp: fuzzExitMessageWithRoot_def split: prod.splits if_splits)
  have m3: "op3 = fst (fuzzExitMessage op2 g2)"
    using cc by (auto simp: fuzzExitMessageWithSignature_def split: prod.splits if_splits)
  show ?thesis
    using init a root b sg cc res m2 m3 by auto
qed

subsection \<open>The scan of the validator keys\<close>

lemma unat_index: "n \<le> 1024 \<Longrightarrow> unat (of_nat n :: 64 word) = n"
  by (simp add: unat_of_nat)

lemma index_not_maxDistance: "n < 1024 \<Longrightarrow> (of_nat n :: 64 word) \<noteq> maxDistance"
proof
  assume n: "n < 1024" and eq: "(of_nat n :: 64 word) = maxDistance"
  have "unat (of_nat n :: 64 word) = n"
    using n by (simp add: unat_index)
  moreover have "unat maxDistance = 1024"
    by (simp add: maxDistance_def)
  ultimately show False
    using n eq by simp
qed

lemma sint_index: "n \<le> 1024 \<Longrightarrow> sint (of_nat n :: 64 word) = int n"
proof -
  assume n: "n \<le> 1024"
  have "sint (word_of_int (int n) :: 64 word) = signed_take_bit (LENGTH(64) - 1) (int n)"
    by (rule sint_sbintrunc')
  also have "\<dots> = int n"
    using n by (simp add: signed_take_bit_int_eq_self)
  finally show ?thesis
    by simp
qed

lemma scanKeyPath_index:
  "n \<le> 1024 \<Longrightarrow> scanKeyPath (of_nat n) = ''m/12381/3600/'' @ decimal n @ ''/0/0''"
  by (simp add: scanKeyPath_def sprintf_d_def sint_index)

lemma scan_skip:
  assumes "m \<le> j" and "j \<le> 1024"
    and "\<forall>n. m \<le> n \<and> n < j \<longrightarrow>
          (\<exists>k. PrivateKeyFromSeedAndPath env sd (''m/12381/3600/'' @ decimal n @ ''/0/0'') = Inr k \<and>
               PublicKeyMarshal env k \<noteq> Pubkey vi)"
  shows "scanValidatorKeys env c sd vi (of_nat m) g = scanValidatorKeys env c sd vi (of_nat j) g"
  using assms
proof (induction "j - m" arbitrary: m)
  case 0
  then show ?case by simp
next
  case (Suc d)
  then have lt: "m < j" and m: "m < 1024"
    by simp_all
  from Suc.prems(3) lt obtain k where
    k: "PrivateKeyFromSeedAndPath env sd (''m/12381/3600/'' @ decimal m @ ''/0/0'') = Inr k"
    and ne: "PublicKeyMarshal env k \<noteq> Pubkey vi"
    by auto
  have step: "scanValidatorKeys env c sd vi (of_nat m) g =
      scanValidatorKeys env c sd vi (of_nat (Suc m)) g"
    using m k ne
    by (subst scanValidatorKeys.simps)
      (simp add: index_not_maxDistance scanKeyPath_index add.commute)
  have "scanValidatorKeys env c sd vi (of_nat (Suc m)) g =
      scanValidatorKeys env c sd vi (of_nat j) g"
  proof (rule Suc.hyps(1))
    show "d = j - Suc m" using Suc.hyps(2) by simp
    show "Suc m \<le> j" using lt by simp
    show "j \<le> 1024" by (rule Suc.prems(2))
    show "\<forall>n. Suc m \<le> n \<and> n < j \<longrightarrow>
          (\<exists>k. PrivateKeyFromSeedAndPath env sd (''m/12381/3600/'' @ decimal n @ ''/0/0'') = Inr k \<and>
               PublicKeyMarshal env k \<noteq> Pubkey vi)"
      using Suc.prems(3) by simp
  qed
  with step show ?case by simp
qed

lemma scan_exhausted:
  assumes "\<forall>n<1024. \<exists>k.
      PrivateKeyFromSeedAndPath env sd (''m/12381/3600/'' @ decimal n @ ''/0/0'') = Inr k \<and>
      PublicKeyMarshal env k \<noteq> Pubkey vi"
  shows "scanValidatorKeys env c sd vi 0 g = (None, c, g)"
proof -
  have "scanValidatorKeys env c sd vi (of_nat 0) g = scanValidatorKeys env c sd vi (of_nat 1024) g"
    using assms by (intro scan_skip) simp_all
  also have "\<dots> = (None, c, g)"
    by (subst scanValidatorKeys.simps) (simp add: maxDistance_def)
  finally show ?thesis by simp
qed

lemma scan_first_match:
  assumes "j < 1024"
    and "\<forall>n<j. \<exists>k.
      PrivateKeyFromSeedAndPath env sd (''m/12381/3600/'' @ decimal n @ ''/0/0'') = Inr k \<and>
      PublicKeyMarshal env k \<noteq> Pubkey vi"
    and "PrivateKeyFromSeedAndPath env sd (''m/12381/3600/'' @ decimal j @ ''/0/0'') = Inr kj"
    and "PublicKeyMarshal env kj = Pubkey vi"
  shows "scanValidatorKeys env c sd vi 0 g =
    (case ParseAccount env (mnemonic c) (Some [''m/12381/3600/'' @ decimal j @ ''/0/0'']) True of
       Inl e \<Rightarrow> (Some (Wrap e ''failed to create withdrawal account''), c, g)
     | Inr validatorAccount \<Rightarrow>
         generateOperationFromAccount env c vi validatorAccount (ChainEpoch (chainInfo c)) g)"
proof -
  have "scanValidatorKeys env c sd vi (of_nat 0) g = scanValidatorKeys env c sd vi (of_nat j) g"
    using assms(1,2) by (intro scan_skip) simp_all
  also have "\<dots> =
    (case ParseAccount env (mnemonic c) (Some [''m/12381/3600/'' @ decimal j @ ''/0/0'']) True of
       Inl e \<Rightarrow> (Some (Wrap e ''failed to create withdrawal account''), c, g)
     | Inr validatorAccount \<Rightarrow>
         generateOperationFromAccount env c vi validatorAccount (ChainEpoch (chainInfo c)) g)"
    using assms(1,3,4)
    by (subst scanValidatorKeys.simps) (simp add: index_not_maxDistance scanKeyPath_index)
  finally show ?thesis by simp
qed

subsection \<open>Decimal numerals of different numbers differ\<close>

lemma decimal_nonempty: "decimal n \<noteq> []"
  by (subst decimal.simps) simp

lemma digit_inj: "(a :: nat) < 10 \<Longrightarrow> (b :: nat) < 10 \<Longrightarrow> (char_of (48 + a) :: char) = char_of (48 + b) \<Longrightarrow> a = b"
proof -
  assume a: "(a :: nat) < 10" and b: "(b :: nat) < 10" and eq: "(char_of (48 + a) :: char) = char_of (48 + b)"
  have "of_char (char_of (48 + a) :: char) = (of_char (char_of (48 + b) :: char) :: nat)"
    using eq by simp
  then have "(48 + a) mod 256 = (48 + b) mod 256"
    by (simp add: of_char_of)
  then show "a = b"
    using a b by simp
qed

lemma decimal_inj: "decimal n = decimal m \<Longrightarrow> n = m"
proof (induction n arbitrary: m rule: decimal.induct)
  case (1 n)
  show ?case
  proof (cases "n < 10")
    case True
    then have dn: "decimal n = [char_of (48 + n)]"
      by (simp add: decimal_digit)
    show ?thesis
    proof (cases "m < 10")
      case m: True
      then have "decimal m = [char_of (48 + m)]"
        by (simp add: decimal_digit)
      with dn "1.prems" True m show ?thesis
        by (auto dest: digit_inj)
    next
      case m: False
      then have "decimal m = decimal (m div 10) @ [char_of (48 + m mod 10)]"
        by (subst decimal.simps) simp
      with dn "1.prems" decimal_nonempty [of "m div 10"] show ?thesis
        by (cases "decimal (m div 10)") auto
    qed
  next
    case False
    then have dn: "decimal n = decimal (n div 10) @ [char_of (48 + n mod 10)]"
      by (subst decimal.simps) simp
    show ?thesis
    proof (cases "m < 10")
      case m: True
      then have "decimal m = [char_of (48 + m)]"
        by (simp add: decimal_digit)
      with dn "1.prems" decimal_nonempty [of "n div 10"] show ?thesis
        by (cases "decimal (n div 10)") auto
    next
      case m: False
      then have dm: "decimal m = decimal (m div 10) @ [char_of (48 + m mod 10)]"
        by (subst decimal.simps) simp
      from dn dm "1.prems" have d: "decimal (n div 10) = decimal (m div 10)"
        and l: "(char_of (48 + n mod 10) :: char) = char_of (48 + m mod 10)"
        by simp_all
      from "1.IH" [OF False d] have "n div 10 = m div 10" .
      moreover from l have "n mod 10 = m mod 10"
        by (intro digit_inj) simp_all
      ultimately show ?thesis
        by (metis div_mult_mod_eq)
    qed
  qed
qed

subsection \<open>The scan as reached from the dispatch, and the keys of the test double\<close>

lemma obtainOperation_scan:
  "mnemonic c \<noteq> '''' \<Longrightarrow> path c = '''' \<Longrightarrow> validator c \<noteq> '''' \<Longrightarrow>
   SeedFromMnemonic env (mnemonic c) = Inr sd \<Longrightarrow>
   FetchValidatorInfo env (chainInfo c) (validator c) = Inr vi \<Longrightarrow>
   obtainOperation env c g = scanValidatorKeys env c sd vi 0 g"
  by (simp add: obtainOperation_def generateOperationFromMnemonicAndValidator_def)

lemma stub_bytes_inj: "stub_bytes s = stub_bytes t \<Longrightarrow> s = t"
proof -
  have "inj (\<lambda>ch :: char. (of_nat (of_char ch) :: byte))"
  proof (rule injI)
    fix x y :: char
    assume "(of_nat (of_char x) :: byte) = of_nat (of_char y)"
    then have "unat (of_nat (of_char x) :: byte) = unat (of_nat (of_char y) :: byte)"
      by simp
    moreover have "(of_char x :: nat) < 256" "(of_char y :: nat) < 256"
      by simp_all
    ultimately have "(of_char x :: nat) = of_char y"
      by (simp add: unat_of_nat)
    then show "x = y"
      by simp
  qed
  then have "inj stub_bytes"
    unfolding stub_bytes_def [abs_def] by (rule inj_mapI)
  then show "stub_bytes s = stub_bytes t \<Longrightarrow> s = t"
    by (rule injD)
qed

lemma stub_keys_differ:
  "n \<noteq> j \<Longrightarrow>
   rev (stub_bytes (''m/12381/3600/'' @ decimal n @ ''/0/0'')) \<noteq>
   rev (stub_bytes (''m/12381/3600/'' @ decimal j @ ''/0/0''))"
proof
  assume ne: "n \<noteq> j"
    and "rev (stub_bytes (''m/12381/3600/'' @ decimal n @ ''/0/0'')) =
         rev (stub_bytes (''m/12381/3600/'' @ decimal j @ ''/0/0''))"
  then have "stub_bytes (''m/12381/3600/'' @ decimal n @ ''/0/0'') =
      stub_bytes (''m/12381/3600/'' @ decimal j @ ''/0/0'')"
    by simp
  then have "''m/12381/3600/'' @ decimal n @ ''/0/0'' = ''m/12381/3600/'' @ decimal j @ ''/0/0''"
    by (rule stub_bytes_inj)
  then have "decimal n = decimal j"
    by simp
  with ne show False
    by (auto dest: decimal_inj)
qed

lemma decimal_7: "decimal 7 = ''7''"
  by code_simp

lemma decimal_9: "decimal 9 = ''9''"
  by code_simp

subsection \<open>What the steps before the broadcast leave alone\<close>

lemma kept_command_updates [simp]:
  "kept (c\<lparr>signedOperation := sop\<rparr>) g = kept c g"
  "kept (c\<lparr>privateKey := k\<rparr>) g = kept c g"
  "kept (c\<lparr>signedOperationInput := inp\<rparr>) g = kept c g"
  "kept (c\<lparr>domain := d\<rparr>) g = kept c g"
  "kept (c\<lparr>chainInfo := ci\<rparr>) g = kept c g"
  by (simp_all add: kept_def)

lemma kept_rand [simp]:
  "kept c (g\<lparr>rand_pos := p\<rparr>) = kept c g"
  "kept c (g\<lparr>rand_stream := st\<rparr>) = kept c g"
  by (simp_all add: kept_def)

lemma kept_FuzzinessAct [simp]: "kept c (snd (FuzzinessAct g)) = kept c g"
  by (simp add: FuzzinessAct_eq)

lemma kept_fuzzExitMessage [simp]: "kept c (snd (fuzzExitMessage op g)) = kept c g"
  by (simp add: fuzzExitMessage_def FuzzinessAct_eq rand_Intn_def)

lemma kept_fuzzExitMessageWithRoot [simp]:
  "kept c (snd (fuzzExitMessageWithRoot op root g)) = kept c g"
proof -
  obtain op' g1 where m: "fuzzExitMessage op g = (op', g1)"
    by (cases "fuzzExitMessage op g")
  then have "kept c g1 = kept c g"
    using kept_fuzzExitMessage [of c op g] by simp
  then show ?thesis
    by (simp add: fuzzExitMessageWithRoot_def m FuzzinessAct_eq rand_Read_def)
qed

lemma kept_fuzzExitMessageWithSignature [simp]:
  "kept c (snd (fuzzExitMessageWithSignature op sig g)) = kept c g"
proof -
  obtain op' g1 where m: "fuzzExitMessage op g = (op', g1)"
    by (cases "fuzzExitMessage op g")
  then have "kept c g1 = kept c g"
    using kept_fuzzExitMessage [of c op g] by simp
  then show ?thesis
    by (simp add: fuzzExitMessageWithSignature_def m FuzzinessAct_eq rand_Read_def)
qed

lemma kept_InitializeFuzzingSeed [simp]: "kept c (snd (InitializeFuzzingSeed g)) = kept c g"
  by (simp add: InitializeFuzzingSeed_def rand_Seed_def rand_Int63_def)

lemma kept_createSignedOperation:
  "createSignedOperation env c v a e g = (r, g') \<Longrightarrow> kept c0 g' = kept c0 g"
proof -
  assume run: "createSignedOperation env c v a e g = (r, g')"
  obtain s g0 where init: "InitializeFuzzingSeed g = (s, g0)"
    by (cases "InitializeFuzzingSeed g")
  then have k0: "kept c0 g0 = kept c0 g"
    using kept_InitializeFuzzingSeed [of c0 g] by simp
  obtain op1 g1 where a: "fuzzExitMessage \<lparr>Epoch = e, ValidatorIndex = Index v\<rparr> g0 = (op1, g1)"
    by (cases "fuzzExitMessage \<lparr>Epoch = e, ValidatorIndex = Index v\<rparr> g0")
  then have k1: "kept c0 g1 = kept c0 g"
    using kept_fuzzExitMessage [of c0 "\<lparr>Epoch = e, ValidatorIndex = Index v\<rparr>" g0] k0 by simp
  show ?thesis
  proof (cases "BestPublicKey env a")
    case (Inl x)
    with run init k0 show ?thesis
      by (simp add: createSignedOperation_def)
  next
    case pk: (Inr pk)
    show ?thesis
    proof (cases "VoluntaryExit_HashTreeRoot env op1")
      case (Inl x)
      with run init a pk k1 show ?thesis
        by (auto simp: createSignedOperation_def)
    next
      case root: (Inr root)
      obtain op2 root2 g2 where b: "fuzzExitMessageWithRoot op1 root g1 = ((op2, root2), g2)"
        by (metis surj_pair)
      then have k2: "kept c0 g2 = kept c0 g"
        using kept_fuzzExitMessageWithRoot [of c0 op1 root g1] k1 by simp
      show ?thesis
      proof (cases "SignRoot env a root2 (domain c)")
        case (Inl x)
        with run init a pk root b k2 show ?thesis
          by (auto simp: createSignedOperation_def)
      next
        case sg: (Inr signature)
        obtain op3 sig3 g3 where cc: "fuzzExitMessageWithSignature op2 signature g2 = ((op3, sig3), g3)"
          by (metis surj_pair)
        then have k3: "kept c0 g3 = kept c0 g"
          using kept_fuzzExitMessageWithSignature [of c0 op2 signature g2] k2 by simp
        from run init a pk root b sg cc k3 show ?thesis
          by (auto simp: createSignedOperation_def)
      qed
    qed
  qed
qed

lemma kept_generateOperationFromAccount:
  "generateOperationFromAccount env c v a e g = (r, c', g') \<Longrightarrow> kept c' g' = kept c g"
proof -
  assume run: "generateOperationFromAccount env c v a e g = (r, c', g')"
  obtain res g1 where cr: "createSignedOperation env c v a e g = (res, g1)"
    by (cases "createSignedOperation env c v a e g")
  from kept_createSignedOperation [OF cr] have k: "kept c g1 = kept c g" .
  from run cr k show ?thesis
    by (cases res) (auto simp: generateOperationFromAccount_def)
qed

lemma kept_generateOperationFromPrivateKey:
  "generateOperationFromPrivateKey env c g = (r, c', g') \<Longrightarrow> kept c' g' = kept c g"
  by (auto simp: generateOperationFromPrivateKey_def split: sum.splits
      dest!: kept_generateOperationFromAccount)

lemma kept_generateOperationFromValidator:
  "generateOperationFromValidator env c g = (r, c', g') \<Longrightarrow> kept c' g' = kept c g"
  by (auto simp: generateOperationFromValidator_def split: sum.splits
      dest!: kept_generateOperationFromAccount)

lemma kept_generateOperationFromSeedAndPath:
  "generateOperationFromSeedAndPath env c vs sd p g = (r, c', g') \<Longrightarrow> kept c' g' = kept c g"
  by (auto simp: generateOperationFromSeedAndPath_def split: sum.splits
      dest!: kept_generateOperationFromPrivateKey)

lemma kept_generateOperationFromMnemonicAndPath:
  "generateOperationFromMnemonicAndPath env c g = (r, c', g') \<Longrightarrow> kept c' g' = kept c g"
  by (auto simp: generateOperationFromMnemonicAndPath_def Let_def
      split: sum.splits if_splits prod.splits option.splits
      dest!: kept_generateOperationFromSeedAndPath)

lemma kept_scanValidatorKeys:
  "scanValidatorKeys env c sd vi i g = (r, c', g') \<Longrightarrow> kept c' g' = kept c g"
proof (induction env c sd vi i g rule: scanValidatorKeys.induct)
  case (1 env c sd vi i g)
  from "1.prems" show ?case
    by (subst (asm) scanValidatorKeys.simps)
      (auto split: if_splits sum.splits dest!: kept_generateOperationFromAccount "1.IH")
qed

lemma kept_generateOperationFromMnemonicAndValidator:
  "generateOperationFromMnemonicAndValidator env c g = (r, c', g') \<Longrightarrow> kept c' g' = kept c g"
  by (auto simp: generateOperationFromMnemonicAndValidator_def split: sum.splits
      dest!: kept_scanValidatorKeys)

lemma kept_obtainOperationFromFile:
  "obtainOperationFromFile env c = (r, c') \<Longrightarrow> kept c' g = kept c g"
  by (auto simp: obtainOperationFromFile_def split: sum.splits option.splits prod.splits)

lemma kept_obtainOperationFromInput:
  "obtainOperationFromInput env c = (r, c') \<Longrightarrow> kept c' g = kept c g"
  by (auto simp: obtainOperationFromInput_def split: sum.splits option.splits prod.splits if_splits)

lemma kept_obtainOperationFromFileOrInput:
  "obtainOperationFromFileOrInput env c = (r, c') \<Longrightarrow> kept c' g = kept c g"
  by (auto simp: obtainOperationFromFileOrInput_def split: if_splits
      dest: kept_obtainOperationFromFile kept_obtainOperationFromInput)

lemma kept_obtainOperation:
  "obtainOperation env c g = (r, c', g') \<Longrightarrow> kept c' g' = kept c g"
  by (auto simp: obtainOperation_def split: if_splits prod.splits option.splits
      dest: kept_obtainOperationFromFileOrInput kept_generateOperationFromMnemonicAndPath
        kept_generateOperationFromMnemonicAndValidator kept_generateOperationFromPrivateKey
        kept_generateOperationFromValidator)

lemma kept_generateDomain:
  "generateDomain env c = (r, c') \<Longrightarrow> kept c' g = kept c g"
  by (auto simp: generateDomain_def Let_def split: sum.splits)

lemma setupCommand_flags:
  "setupCommand env c = (r, c') \<Longrightarrow>
   json c' = json c \<and> offline c' = offline c \<and> prepareOffline c' = prepareOffline c"
  by (auto simp: setupCommand_def Let_def split: sum.splits option.splits if_splits)

subsection \<open>The workflow after a successful obtain step\<close>

lemma kept_fields:
  "kept c' g' = kept c g \<Longrightarrow>
   json c' = json c \<and> offline c' = offline c \<and> prepareOffline c' = prepareOffline c \<and>
   consensusClient c' = consensusClient c \<and> submitted g' = submitted g \<and>
   viper_fuzziness g' = viper_fuzziness g"
  by (simp add: kept_def)

lemma process_after_setup:
  assumes "setupCommand env c = (None, c1)" and "obtainChainInfo env c1 = Inr ci"
    and "\<not> prepareOffline c"
    and "generateDomain env (c1\<lparr>chainInfo := ci\<rparr>) = (None, c3)"
    and "obtainOperation env c3 g = (None, c4, g4)"
  shows "process env c g =
    (if json c \<or> offline c then (None, c4, g4) else broadcastOperation c4 g4)"
proof -
  from setupCommand_flags [OF assms(1)]
  have f1: "json c1 = json c" "offline c1 = offline c" "prepareOffline c1 = prepareOffline c"
    by simp_all
  from kept_fields [OF kept_generateDomain [OF assms(4), of g]]
  have f3: "json c3 = json c" "offline c3 = offline c"
    using f1 by simp_all
  from kept_fields [OF kept_obtainOperation [OF assms(5)]]
  have f4: "json c4 = json c" "offline c4 = offline c"
    using f3 by simp_all
  show ?thesis
    using assms f1 f4 by (simp add: process_def Let_def validateOperation_def)
qed


subsection \<open>The shape of the receiver after the first steps\<close>

lemma setupCommand_shape:
  "setupCommand env c = (r, c') \<Longrightarrow> \<exists>cl ct. c' = c\<lparr>consensusClient := cl, chainTime := ct\<rparr>"
proof -
  assume run: "setupCommand env c = (r, c')"
  have same: "c = c\<lparr>consensusClient := consensusClient c, chainTime := chainTime c\<rparr>"
    by simp
  show ?thesis
  proof (cases "offline c")
    case True
    with run have "c' = c" by (simp add: setupCommand_def)
    with same show ?thesis by metis
  next
    case False
    show ?thesis
    proof (cases "ConnectToBeaconNode env (connection c) (timeout c) (allowInsecureConnections c)")
      case (Inl e)
      with run False have "c' = c\<lparr>consensusClient := None, chainTime := chainTime c\<rparr>"
        by (auto simp: setupCommand_def)
      then show ?thesis by blast
    next
      case (Inr cl)
      with run False have "c' = c\<lparr>consensusClient := Some cl, chainTime := chainTime c\<rparr> \<or>
          c' = c\<lparr>consensusClient := Some cl, chainTime := None\<rparr> \<or>
          c' = c\<lparr>consensusClient := Some cl, chainTime := Some ()\<rparr>"
        by (auto simp: setupCommand_def Let_def split: if_splits option.splits)
      then show ?thesis by blast
    qed
  qed
qed

lemma generateDomain_shape:
  "generateDomain env c = (r, c') \<Longrightarrow> \<exists>d. c' = c\<lparr>domain := d\<rparr>"
proof -
  assume run: "generateDomain env c = (r, c')"
  have same: "c = c\<lparr>domain := domain c\<rparr>"
    by simp
  from run have "c' = c \<or> (\<exists>d. c' = c\<lparr>domain := d\<rparr>)"
    by (auto simp: generateDomain_def Let_def split: sum.splits)
  with same show ?thesis by metis
qed

lemma setupCommand_online_client:
  "setupCommand env c = (None, c') \<Longrightarrow> \<not> offline c \<Longrightarrow> \<exists>cl. consensusClient c' = Some cl"
  by (auto simp: setupCommand_def Let_def split: sum.splits if_splits option.splits)

subsection \<open>Malformed input\<close>
















subsection \<open>Claims about the fuzz injector\<close>

text \<open>
  Claim C6. At every fuzz checkpoint a field is replaced if and only if the percentage
  drawn for it, a value in \<open>[0, 100)\<close>, is below the configured intensity: this holds
  for the decision \<open>FuzzinessAct\<close> itself, for the validator index and the epoch in
  \<open>fuzzExitMessage\<close> (each with a draw of its own), and for the root and the signature
  in the two later checkpoints. At intensity 0 the three checkpoints return message,
  root and signature unchanged; at intensity 100 every field is replaced by the next
  random value.
\<close>

theorem fuzz_acts_iff_draw_below_intensity:
  "(fst (FuzzinessAct g) \<longleftrightarrow> int (rand_stream g (rand_pos g) mod 100) < viper_fuzziness g) \<and>
   0 \<le> int (rand_stream g (rand_pos g) mod 100) \<and> int (rand_stream g (rand_pos g) mod 100) < 100 \<and>
   (let g2 = (if fst (FuzzinessAct g) then snd (rand_Intn 1000000 (snd (FuzzinessAct g)))
              else snd (FuzzinessAct g));
        g1 = snd (fuzzExitMessage op g)
    in ValidatorIndex (fst (fuzzExitMessage op g)) =
         (if fst (FuzzinessAct g) then of_int (fst (rand_Intn 1000000 (snd (FuzzinessAct g))))
          else ValidatorIndex op) \<and>
       Epoch (fst (fuzzExitMessage op g)) =
         (if fst (FuzzinessAct g2) then of_int (fst (rand_Intn 1000000 (snd (FuzzinessAct g2))))
          else Epoch op) \<and>
       fuzzExitMessageWithRoot op root g =
         (if fst (FuzzinessAct g1)
          then ((fst (fuzzExitMessage op g), copy root (fst (rand_Read 32 (snd (FuzzinessAct g1))))),
                snd (rand_Read 32 (snd (FuzzinessAct g1))))
          else ((fst (fuzzExitMessage op g), root), snd (FuzzinessAct g1))) \<and>
       fuzzExitMessageWithSignature op sig g =
         (if fst (FuzzinessAct g1)
          then ((fst (fuzzExitMessage op g), copy sig (fst (rand_Read 96 (snd (FuzzinessAct g1))))),
                snd (rand_Read 96 (snd (FuzzinessAct g1))))
          else ((fst (fuzzExitMessage op g), sig), snd (FuzzinessAct g1)))) \<and>
   (viper_fuzziness g = 0 \<longrightarrow>
      fst (fuzzExitMessage op g) = op \<and>
      fst (fuzzExitMessageWithRoot op root g) = (op, root) \<and>
      fst (fuzzExitMessageWithSignature op sig g) = (op, sig)) \<and>
   (viper_fuzziness g = 100 \<longrightarrow>
      fst (fuzzExitMessage op g) =
        op\<lparr>ValidatorIndex := of_nat (rand_stream g (rand_pos g + 1) mod 1000000),
           Epoch := of_nat (rand_stream g (rand_pos g + 3) mod 1000000)\<rparr> \<and>
      fst (fuzzExitMessageWithRoot op root g) =
        (op\<lparr>ValidatorIndex := of_nat (rand_stream g (rand_pos g + 1) mod 1000000),
            Epoch := of_nat (rand_stream g (rand_pos g + 3) mod 1000000)\<rparr>,
         copy root (map (\<lambda>k. of_nat (rand_stream g (rand_pos g + 5 + k))) [0..<32])) \<and>
      fst (fuzzExitMessageWithSignature op sig g) =
        (op\<lparr>ValidatorIndex := of_nat (rand_stream g (rand_pos g + 1) mod 1000000),
            Epoch := of_nat (rand_stream g (rand_pos g + 3) mod 1000000)\<rparr>,
         copy sig (map (\<lambda>k. of_nat (rand_stream g (rand_pos g + 5 + k))) [0..<96])))"
proof -
  have act: "fst (FuzzinessAct g) \<longleftrightarrow> int (rand_stream g (rand_pos g) mod 100) < viper_fuzziness g"
    by (simp add: FuzzinessAct_eq)
  have range: "0 \<le> int (rand_stream g (rand_pos g) mod 100) \<and>
      int (rand_stream g (rand_pos g) mod 100) < 100"
    by simp
  have fields: "ValidatorIndex (fst (fuzzExitMessage op g)) =
         (if fst (FuzzinessAct g) then of_int (fst (rand_Intn 1000000 (snd (FuzzinessAct g))))
          else ValidatorIndex op)"
    by (simp add: fuzzExitMessage_def split: prod.splits)
  have epoch: "Epoch (fst (fuzzExitMessage op g)) =
         (if fst (FuzzinessAct (if fst (FuzzinessAct g)
                then snd (rand_Intn 1000000 (snd (FuzzinessAct g))) else snd (FuzzinessAct g)))
          then of_int (fst (rand_Intn 1000000 (snd (FuzzinessAct (if fst (FuzzinessAct g)
                then snd (rand_Intn 1000000 (snd (FuzzinessAct g))) else snd (FuzzinessAct g))))))
          else Epoch op)"
    by (simp add: fuzzExitMessage_def split: prod.splits)
  have root: "fuzzExitMessageWithRoot op root g =
         (if fst (FuzzinessAct (snd (fuzzExitMessage op g)))
          then ((fst (fuzzExitMessage op g),
                 copy root (fst (rand_Read 32 (snd (FuzzinessAct (snd (fuzzExitMessage op g))))))),
                snd (rand_Read 32 (snd (FuzzinessAct (snd (fuzzExitMessage op g))))))
          else ((fst (fuzzExitMessage op g), root), snd (FuzzinessAct (snd (fuzzExitMessage op g)))))"
    by (simp add: fuzzExitMessageWithRoot_def split: prod.splits)
  have sig: "fuzzExitMessageWithSignature op sig g =
         (if fst (FuzzinessAct (snd (fuzzExitMessage op g)))
          then ((fst (fuzzExitMessage op g),
                 copy sig (fst (rand_Read 96 (snd (FuzzinessAct (snd (fuzzExitMessage op g))))))),
                snd (rand_Read 96 (snd (FuzzinessAct (snd (fuzzExitMessage op g))))))
          else ((fst (fuzzExitMessage op g), sig), snd (FuzzinessAct (snd (fuzzExitMessage op g)))))"
    by (simp add: fuzzExitMessageWithSignature_def split: prod.splits)
  have zero: "viper_fuzziness g = 0 \<longrightarrow>
      fst (fuzzExitMessage op g) = op \<and>
      fst (fuzzExitMessageWithRoot op root g) = (op, root) \<and>
      fst (fuzzExitMessageWithSignature op sig g) = (op, sig)"
    by (simp add: fuzzExitMessage_zero fuzzExitMessageWithRoot_zero fuzzExitMessageWithSignature_zero)
  have hundred: "viper_fuzziness g = 100 \<longrightarrow>
      fst (fuzzExitMessage op g) =
        op\<lparr>ValidatorIndex := of_nat (rand_stream g (rand_pos g + 1) mod 1000000),
           Epoch := of_nat (rand_stream g (rand_pos g + 3) mod 1000000)\<rparr> \<and>
      fst (fuzzExitMessageWithRoot op root g) =
        (op\<lparr>ValidatorIndex := of_nat (rand_stream g (rand_pos g + 1) mod 1000000),
            Epoch := of_nat (rand_stream g (rand_pos g + 3) mod 1000000)\<rparr>,
         copy root (map (\<lambda>k. of_nat (rand_stream g (rand_pos g + 5 + k))) [0..<32])) \<and>
      fst (fuzzExitMessageWithSignature op sig g) =
        (op\<lparr>ValidatorIndex := of_nat (rand_stream g (rand_pos g + 1) mod 1000000),
            Epoch := of_nat (rand_stream g (rand_pos g + 3) mod 1000000)\<rparr>,
         copy sig (map (\<lambda>k. of_nat (rand_stream g (rand_pos g + 5 + k))) [0..<96]))"
    by (simp add: fuzzExitMessage_hundred fuzzExitMessageWithRoot_hundred
        fuzzExitMessageWithSignature_hundred)
  show ?thesis
    unfolding Let_def using act range fields epoch root sig zero hundred by blast
qed

theorem fuzz_acts_iff_draw_below_intensity_witness:
  "fst (fuzzExitMessageWithRoot \<lparr>Epoch = 5, ValidatorIndex = 7\<rparr> [1, 2] (stub_globals 0 [])) =
     (\<lparr>Epoch = 5, ValidatorIndex = 7\<rparr>, [1, 2]) \<and>
   fst (fuzzExitMessageWithSignature \<lparr>Epoch = 5, ValidatorIndex = 7\<rparr> [3] (stub_globals 0 [])) =
     (\<lparr>Epoch = 5, ValidatorIndex = 7\<rparr>, [3]) \<and>
   fst (fuzzExitMessageWithRoot \<lparr>Epoch = 5, ValidatorIndex = 7\<rparr> [1, 2] (stub_globals 100 [])) =
     (\<lparr>Epoch = 99, ValidatorIndex = 99\<rparr>, [99, 99])"
proof -
  have z: "viper_fuzziness (stub_globals 0 []) = 0"
    by (simp add: stub_globals_def)
  have h: "viper_fuzziness (stub_globals 100 []) = 100"
    by (simp add: stub_globals_def)
  note zero = fuzz_acts_iff_draw_below_intensity
      [where g = "stub_globals 0 []" and op = "\<lparr>Epoch = 5, ValidatorIndex = 7\<rparr>"
         and root = "[1, 2]" and sig = "[3]",
       THEN conjunct2, THEN conjunct2, THEN conjunct2, THEN conjunct2, THEN conjunct1,
       THEN mp, OF z]
  note hundred = fuzz_acts_iff_draw_below_intensity
      [where g = "stub_globals 100 []" and op = "\<lparr>Epoch = 5, ValidatorIndex = 7\<rparr>"
         and root = "[1, 2]" and sig = "[3]",
       THEN conjunct2, THEN conjunct2, THEN conjunct2, THEN conjunct2, THEN conjunct2,
       THEN mp, OF h]
  have st: "rand_stream (stub_globals 100 []) = (\<lambda>n. 99)"
    by (simp add: stub_globals_def)
  have tk: "take (Suc (Suc 0)) (map (\<lambda>k. (99 :: byte)) [0..<32]) = [99, 99]"
    by (simp add: take_map upt_rec)
  from zero hundred show ?thesis
    by (simp add: st copy_def tk)
qed

subsection \<open>Claims about building and verifying\<close>

text \<open>
  Claim C5. Build, then verify: for every validator, signing account whose public key
  is the validator's, epoch and signing domain, the signed exit operation that
  \<open>createSignedOperation\<close> returns at fuzz intensity 0 is accepted by
  \<open>verifySignedOperation\<close> under the same domain. The validator is the one that the
  chain information returns for its index. The signing collaborators are taken by
  their contract: a signature that the account produces over a root under the domain
  parses, the account's public key parses, and the signature verifies against the
  signing root of that root and domain under that key.
\<close>

theorem build_then_verify_at_intensity_zero:
  assumes intensity: "viper_fuzziness g = 0"
    and built: "createSignedOperation env c v account epoch g = (Inr sop, g')"
    and keymatch: "BestPublicKey env account = Inr (Pubkey v)"
    and registered: "FetchValidatorInfo env (chainInfo c) (decimal (unat (Index v))) = Inr v"
    and signer: "\<And>root sig pk. SignRoot env account root (domain c) = Inr sig \<Longrightarrow>
        BestPublicKey env account = Inr pk \<Longrightarrow>
        BLSSignatureFromBytes env sig = None \<and>
        BLSPublicKeyFromBytes env pk = None \<and>
        (\<exists>signingRoot.
           ssz_HashTreeRoot env \<lparr>ObjectRoot = root, SigningDomain = domain c\<rparr> = Inr signingRoot \<and>
           Verify env sig signingRoot pk)"
  shows "verifySignedOperation env c (Some sop) = None"
proof -
  from createSignedOperation_zero [OF _ built] intensity
  obtain root where root: "VoluntaryExit_HashTreeRoot env \<lparr>Epoch = epoch, ValidatorIndex = Index v\<rparr> = Inr root"
    and msg: "Message sop = \<lparr>Epoch = epoch, ValidatorIndex = Index v\<rparr>"
    and sig: "SignRoot env account root (domain c) = Inr (Signature sop)"
    by auto
  from signer [OF sig keymatch] obtain signingRoot where
    parse: "BLSSignatureFromBytes env (Signature sop) = None"
    and key: "BLSPublicKeyFromBytes env (Pubkey v) = None"
    and sr: "ssz_HashTreeRoot env \<lparr>ObjectRoot = root, SigningDomain = domain c\<rparr> = Inr signingRoot"
    and ok: "Verify env (Signature sop) signingRoot (Pubkey v)"
    by auto
  show ?thesis
    by (simp add: verifySignedOperation_def msg root parse sr registered key ok)
qed

theorem build_then_verify_at_intensity_zero_witness:
  "verifySignedOperation stub_env stub_command
     (Some \<lparr>Message = \<lparr>Epoch = 5, ValidatorIndex = 7\<rparr>,
            Signature = [3, 2, 1, 5, 7] @ replicate 32 0\<rparr>) = None"
proof -
  have intensity: "viper_fuzziness (stub_globals 0 []) = 0"
    by (simp add: stub_globals_def)
  have f0: "viper_fuzziness (snd (InitializeFuzzingSeed (stub_globals 0 []))) \<le> 0"
    by (simp add: intensity)
  obtain s g0 where init: "InitializeFuzzingSeed (stub_globals 0 []) = (s, g0)"
    by (cases "InitializeFuzzingSeed (stub_globals 0 [])")
  have g0: "viper_fuzziness g0 \<le> 0"
    using f0 init by simp
  have built: "createSignedOperation stub_env stub_command stub_validator [1, 2, 3] 5 (stub_globals 0 []) =
      (Inr \<lparr>Message = \<lparr>Epoch = 5, ValidatorIndex = 7\<rparr>,
            Signature = [3, 2, 1, 5, 7] @ replicate 32 0\<rparr>,
       g0\<lparr>rand_pos := rand_pos g0 + 8\<rparr>)"
    using g0
    by (simp add: createSignedOperation_def init fuzzExitMessage_zero fuzzExitMessageWithRoot_zero
        fuzzExitMessageWithSignature_zero stub_env_def stub_validator_def stub_command_def)
  have keymatch: "BestPublicKey stub_env [1, 2, 3] = Inr (Pubkey stub_validator)"
    by (simp add: stub_env_def stub_validator_def)
  have registered: "FetchValidatorInfo stub_env (chainInfo stub_command)
      (decimal (unat (Index stub_validator))) = Inr stub_validator"
    by (simp add: stub_env_def stub_command_def stub_chainInfo_def stub_FetchValidatorInfo_def
        stub_validator_def decimal_digit)
  have signer: "\<And>root sig pk. SignRoot stub_env [1, 2, 3] root (domain stub_command) = Inr sig \<Longrightarrow>
        BestPublicKey stub_env [1, 2, 3] = Inr pk \<Longrightarrow>
        BLSSignatureFromBytes stub_env sig = None \<and>
        BLSPublicKeyFromBytes stub_env pk = None \<and>
        (\<exists>signingRoot.
           ssz_HashTreeRoot stub_env \<lparr>ObjectRoot = root, SigningDomain = domain stub_command\<rparr> =
             Inr signingRoot \<and>
           Verify stub_env sig signingRoot pk)"
    by (auto simp: stub_env_def)
  show ?thesis
    by (rule build_then_verify_at_intensity_zero [OF intensity built keymatch registered signer])
qed

text \<open>
  Claim C7. For every domain-type tag, fork version and genesis validators root, the
  domain that \<open>generateDomain\<close> stores is 32 bytes long, its first 4 bytes are the
  tag, its other 28 bytes are the first 28 bytes of the hash tree root of the fork data
  made of the fork version and the genesis validators root, and it is a function of
  these inputs alone: a second receiver with the same tag, fork version and root gets
  the same domain. The lengths assumed are those of the Go array types (a 32-byte
  root and domain, a 4-byte tag).
\<close>

theorem signing_domain_is_tag_and_28_bytes_of_root:
  assumes gvr: "obtainGenesisValidatorsRoot c = Inr gvr"
    and fv: "obtainForkVersion c = Inr fv"
    and root: "ForkData_HashTreeRoot env \<lparr>CurrentVersion = fv, GenesisValidatorsRoot = gvr\<rparr> = Inr root"
    and root_len: "length root = 32"
    and domain_len: "length (domain c) = 32"
    and tag_len: "length (VoluntaryExitDomainType (chainInfo c)) = 4"
  shows "length fv = 4 \<and> length gvr = 32 \<and>
    generateDomain env c =
      (None, c\<lparr>domain := VoluntaryExitDomainType (chainInfo c) @ take 28 root\<rparr>) \<and>
    length (domain (snd (generateDomain env c))) = 32 \<and>
    take 4 (domain (snd (generateDomain env c))) = VoluntaryExitDomainType (chainInfo c) \<and>
    drop 4 (domain (snd (generateDomain env c))) = take 28 root \<and>
    (\<forall>c2. obtainGenesisValidatorsRoot c2 = Inr gvr \<and> obtainForkVersion c2 = Inr fv \<and>
          VoluntaryExitDomainType (chainInfo c2) = VoluntaryExitDomainType (chainInfo c) \<and>
          length (domain c2) = 32 \<longrightarrow>
          domain (snd (generateDomain env c2)) = domain (snd (generateDomain env c)))"
proof -
  note eq = generateDomain_eq [OF gvr fv root root_len domain_len tag_len]
  have other: "domain (snd (generateDomain env c2)) = domain (snd (generateDomain env c))"
    if "obtainGenesisValidatorsRoot c2 = Inr gvr" and "obtainForkVersion c2 = Inr fv"
      and "VoluntaryExitDomainType (chainInfo c2) = VoluntaryExitDomainType (chainInfo c)"
      and "length (domain c2) = 32" for c2
    using generateDomain_eq [OF that(1) that(2) root root_len that(4)] that(3) tag_len eq
    by simp
  show ?thesis
    using obtainForkVersion_length [OF fv] obtainGenesisValidatorsRoot_length [OF gvr]
      eq root_len tag_len other
    by simp
qed

theorem signing_domain_is_tag_and_28_bytes_of_root_witness:
  "domain (snd (generateDomain stub_env (stub_command\<lparr>forkVersion := ''0x01020304''\<rparr>))) =
     [4, 0, 0, 0] @ [1, 2, 3, 4] @ replicate 24 9"
proof -
  let ?c = "stub_command\<lparr>forkVersion := ''0x01020304''\<rparr>"
  have gvr: "obtainGenesisValidatorsRoot ?c = Inr (replicate 32 9)"
    by (simp add: obtainGenesisValidatorsRoot_def stub_command_def stub_chainInfo_def copy_def)
  have fv: "obtainForkVersion ?c = Inr [1, 2, 3, 4]"
    by (simp add: obtainForkVersion_def stub_command_def TrimPrefix_def HasPrefix_def
        fromHexChar_def ForkVersionLength_def copy_def)
  have root: "ForkData_HashTreeRoot stub_env
      \<lparr>CurrentVersion = [1, 2, 3, 4], GenesisValidatorsRoot = replicate 32 9\<rparr> =
      Inr ([1, 2, 3, 4] @ replicate 28 9)"
    by (simp add: stub_env_def)
  have root_len: "length ([1, 2, 3, 4] @ replicate 28 (9 :: byte)) = 32"
    by simp
  have domain_len: "length (domain ?c) = 32"
    by (simp add: stub_command_def)
  have tag: "VoluntaryExitDomainType (chainInfo ?c) = [4, 0, 0, 0]"
    by (simp add: stub_command_def stub_chainInfo_def)
  have tag_len: "length (VoluntaryExitDomainType (chainInfo ?c)) = 4"
    by (simp add: stub_command_def stub_chainInfo_def)
  from signing_domain_is_tag_and_28_bytes_of_root [OF gvr fv root root_len domain_len tag_len]
  have "generateDomain stub_env ?c =
      (None, ?c\<lparr>domain := VoluntaryExitDomainType (chainInfo ?c) @
         take 28 ([1, 2, 3, 4] @ replicate 28 9)\<rparr>)"
    by blast
  then show ?thesis
    by (simp add: stub_command_def stub_chainInfo_def)
qed

text \<open>
  Claim C10. The second and the third fuzz checkpoint fuzz the message again, besides
  the root or the signature: the message that \<open>fuzzExitMessageWithRoot\<close> and
  \<open>fuzzExitMessageWithSignature\<close> return is the one \<open>fuzzExitMessage\<close> returns, in
  which the validator index and the epoch are each either kept or replaced by a value
  below 1,000,000. In \<open>createSignedOperation\<close> the root is taken from the message
  of the first checkpoint, the second checkpoint runs after it and before signing, and
  the third after signing, so the message returned is the message signed over, fuzzed
  twice more. In the run of the witness the signature covers the root of epoch 5 and
  index 7 while the message returned holds 99 and 99.
\<close>

theorem later_checkpoints_fuzz_message_again:
  "fst (fst (fuzzExitMessageWithRoot op root g)) = fst (fuzzExitMessage op g) \<and>
   fst (fst (fuzzExitMessageWithSignature op sig g)) = fst (fuzzExitMessage op g) \<and>
   (ValidatorIndex (fst (fuzzExitMessage op g)) = ValidatorIndex op \<or>
      unat (ValidatorIndex (fst (fuzzExitMessage op g))) < 1000000) \<and>
   (Epoch (fst (fuzzExitMessage op g)) = Epoch op \<or>
      unat (Epoch (fst (fuzzExitMessage op g))) < 1000000) \<and>
   (createSignedOperation env c v a e g0 = (Inr sop, g') \<longrightarrow>
      (\<exists>op1 g1 root1 op2 root2 g2 signature.
         fuzzExitMessage \<lparr>Epoch = e, ValidatorIndex = Index v\<rparr> (snd (InitializeFuzzingSeed g0)) =
           (op1, g1) \<and>
         VoluntaryExit_HashTreeRoot env op1 = Inr root1 \<and>
         fuzzExitMessageWithRoot op1 root1 g1 = ((op2, root2), g2) \<and>
         op2 = fst (fuzzExitMessage op1 g1) \<and>
         SignRoot env a root2 (domain c) = Inr signature \<and>
         fuzzExitMessageWithSignature op2 signature g2 = ((Message sop, Signature sop), g') \<and>
         Message sop = fst (fuzzExitMessage op2 g2)))"
proof -
  have r: "fst (fst (fuzzExitMessageWithRoot op root g)) = fst (fuzzExitMessage op g)"
    by (simp add: fuzzExitMessageWithRoot_def split: prod.splits)
  have s: "fst (fst (fuzzExitMessageWithSignature op sig g)) = fst (fuzzExitMessage op g)"
    by (simp add: fuzzExitMessageWithSignature_def split: prod.splits)
  have steps: "createSignedOperation env c v a e g0 = (Inr sop, g') \<longrightarrow>
      (\<exists>op1 g1 root1 op2 root2 g2 signature.
         fuzzExitMessage \<lparr>Epoch = e, ValidatorIndex = Index v\<rparr> (snd (InitializeFuzzingSeed g0)) =
           (op1, g1) \<and>
         VoluntaryExit_HashTreeRoot env op1 = Inr root1 \<and>
         fuzzExitMessageWithRoot op1 root1 g1 = ((op2, root2), g2) \<and>
         op2 = fst (fuzzExitMessage op1 g1) \<and>
         SignRoot env a root2 (domain c) = Inr signature \<and>
         fuzzExitMessageWithSignature op2 signature g2 = ((Message sop, Signature sop), g') \<and>
         Message sop = fst (fuzzExitMessage op2 g2))"
    using createSignedOperation_steps [of env c v a e g0 sop g'] by blast
  from r s fuzzExitMessage_fields_bound [of op g] steps show ?thesis
    by (intro conjI) simp_all
qed

theorem later_checkpoints_fuzz_message_again_witness:
  "fst (createSignedOperation stub_env stub_command stub_validator [1, 2, 3] 5
          (stub_globals 50 [2, 7])) =
     Inr \<lparr>Message = \<lparr>Epoch = 99, ValidatorIndex = 99\<rparr>,
          Signature = [3, 2, 1] @ [5, 7] @ replicate 32 0\<rparr> \<and>
   VoluntaryExit_HashTreeRoot stub_env \<lparr>Epoch = 5, ValidatorIndex = 7\<rparr> = Inr [5, 7] \<and>
   (\<exists>op1 g1 root1 op2 root2 g2 signature.
      fuzzExitMessage \<lparr>Epoch = 5, ValidatorIndex = Index stub_validator\<rparr>
          (snd (InitializeFuzzingSeed (stub_globals 50 [2, 7]))) = (op1, g1) \<and>
      VoluntaryExit_HashTreeRoot stub_env op1 = Inr root1 \<and>
      fuzzExitMessageWithRoot op1 root1 g1 = ((op2, root2), g2) \<and>
      op2 = fst (fuzzExitMessage op1 g1) \<and>
      SignRoot stub_env [1, 2, 3] root2 (domain stub_command) = Inr signature \<and>
      fuzzExitMessage op2 g2 = (\<lparr>Epoch = 99, ValidatorIndex = 99\<rparr>, snd (fuzzExitMessage op2 g2)))"
proof -
  obtain r g' where run: "createSignedOperation stub_env stub_command stub_validator [1, 2, 3] 5
          (stub_globals 50 [2, 7]) = (r, g')"
    by (cases "createSignedOperation stub_env stub_command stub_validator [1, 2, 3] 5
          (stub_globals 50 [2, 7])")
  have val: "fst (createSignedOperation stub_env stub_command stub_validator [1, 2, 3] 5
          (stub_globals 50 [2, 7])) =
     Inr \<lparr>Message = \<lparr>Epoch = 99, ValidatorIndex = 99\<rparr>,
          Signature = [3, 2, 1] @ [5, 7] @ replicate 32 0\<rparr>"
    by (simp add: createSignedOperation_def InitializeFuzzingSeed_def rand_Seed_def
        fuzzExitMessage_def fuzzExitMessageWithRoot_def fuzzExitMessageWithSignature_def
        FuzzinessAct_def rand_Intn_def stub_globals_def stub_env_def stub_validator_def
        stub_command_def)
  then have built: "createSignedOperation stub_env stub_command stub_validator [1, 2, 3] 5
          (stub_globals 50 [2, 7]) =
     (Inr \<lparr>Message = \<lparr>Epoch = 99, ValidatorIndex = 99\<rparr>,
          Signature = [3, 2, 1] @ [5, 7] @ replicate 32 0\<rparr>, g')"
    using run by simp
  have root: "VoluntaryExit_HashTreeRoot stub_env \<lparr>Epoch = 5, ValidatorIndex = 7\<rparr> = Inr [5, 7]"
    by (simp add: stub_env_def)
  note steps = later_checkpoints_fuzz_message_again
      [where env = stub_env and c = stub_command and v = stub_validator and a = "[1, 2, 3]"
         and e = 5 and ?g0.0 = "stub_globals 50 [2, 7]" and g' = g'
         and sop = "\<lparr>Message = \<lparr>Epoch = 99, ValidatorIndex = 99\<rparr>,
          Signature = [3, 2, 1] @ [5, 7] @ replicate 32 0\<rparr>",
       THEN conjunct2, THEN conjunct2, THEN conjunct2, THEN conjunct2, THEN mp, OF built]
  then obtain op1 g1 root1 op2 root2 g2 signature where
    st: "fuzzExitMessage \<lparr>Epoch = 5, ValidatorIndex = Index stub_validator\<rparr>
          (snd (InitializeFuzzingSeed (stub_globals 50 [2, 7]))) = (op1, g1)"
      "VoluntaryExit_HashTreeRoot stub_env op1 = Inr root1"
      "fuzzExitMessageWithRoot op1 root1 g1 = ((op2, root2), g2)"
      "op2 = fst (fuzzExitMessage op1 g1)"
      "SignRoot stub_env [1, 2, 3] root2 (domain stub_command) = Inr signature"
      "\<lparr>Epoch = 99, ValidatorIndex = 99\<rparr> = fst (fuzzExitMessage op2 g2)"
    by auto
  have "fuzzExitMessage op2 g2 = (\<lparr>Epoch = 99, ValidatorIndex = 99\<rparr>, snd (fuzzExitMessage op2 g2))"
    using st(6) by (metis prod.collapse)
  with st val root show ?thesis
    by blast
qed

subsection \<open>Claims about the key scan\<close>

text \<open>
  Claim C2. Given a mnemonic and a validator and no path, the operation is obtained by
  the scan: the candidate key is derived at the paths of the indices 0, 1, 2, ... in
  this order and its public key compared, byte for byte, with the public key of the
  validator. When the key at \<open>j < 1024\<close> is the first to match, the result is the
  operation built for the account at the path of \<open>j\<close>, and no later index is
  read. When none of the indices below 1024 matches, the scan ends with no error and
  leaves the receiver, and so its signed operation, as it was; the key at index 1024
  is not read. In the witness the validator's key sits at index 1024, where the scan
  does not find it, and at index 1023, where it does.
\<close>

theorem key_scan_stops_at_first_match_or_at_1024:
  assumes given: "mnemonic c \<noteq> ''''" "path c = ''''" "validator c \<noteq> ''''"
    and seed: "SeedFromMnemonic env (mnemonic c) = Inr sd"
    and target: "FetchValidatorInfo env (chainInfo c) (validator c) = Inr vi"
  shows
   "(\<forall>j kj. j < 1024 \<and>
        (\<forall>n<j. \<exists>k.
           PrivateKeyFromSeedAndPath env sd (''m/12381/3600/'' @ decimal n @ ''/0/0'') = Inr k \<and>
           PublicKeyMarshal env k \<noteq> Pubkey vi) \<and>
        PrivateKeyFromSeedAndPath env sd (''m/12381/3600/'' @ decimal j @ ''/0/0'') = Inr kj \<and>
        PublicKeyMarshal env kj = Pubkey vi \<longrightarrow>
        obtainOperation env c g =
          (case ParseAccount env (mnemonic c) (Some [''m/12381/3600/'' @ decimal j @ ''/0/0'']) True of
             Inl e \<Rightarrow> (Some (Wrap e ''failed to create withdrawal account''), c, g)
           | Inr validatorAccount \<Rightarrow>
               generateOperationFromAccount env c vi validatorAccount (ChainEpoch (chainInfo c)) g)) \<and>
    ((\<forall>n<1024. \<exists>k.
        PrivateKeyFromSeedAndPath env sd (''m/12381/3600/'' @ decimal n @ ''/0/0'') = Inr k \<and>
        PublicKeyMarshal env k \<noteq> Pubkey vi) \<longrightarrow>
     obtainOperation env c g = (None, c, g))"
proof (intro conjI allI impI)
  fix j kj
  assume h: "j < 1024 \<and>
        (\<forall>n<j. \<exists>k.
           PrivateKeyFromSeedAndPath env sd (''m/12381/3600/'' @ decimal n @ ''/0/0'') = Inr k \<and>
           PublicKeyMarshal env k \<noteq> Pubkey vi) \<and>
        PrivateKeyFromSeedAndPath env sd (''m/12381/3600/'' @ decimal j @ ''/0/0'') = Inr kj \<and>
        PublicKeyMarshal env kj = Pubkey vi"
  then have "scanValidatorKeys env c sd vi 0 g =
      (case ParseAccount env (mnemonic c) (Some [''m/12381/3600/'' @ decimal j @ ''/0/0'']) True of
         Inl e \<Rightarrow> (Some (Wrap e ''failed to create withdrawal account''), c, g)
       | Inr validatorAccount \<Rightarrow>
           generateOperationFromAccount env c vi validatorAccount (ChainEpoch (chainInfo c)) g)"
    by (intro scan_first_match [of j env sd vi kj]) blast+
  then show "obtainOperation env c g =
      (case ParseAccount env (mnemonic c) (Some [''m/12381/3600/'' @ decimal j @ ''/0/0'']) True of
         Inl e \<Rightarrow> (Some (Wrap e ''failed to create withdrawal account''), c, g)
       | Inr validatorAccount \<Rightarrow>
           generateOperationFromAccount env c vi validatorAccount (ChainEpoch (chainInfo c)) g)"
    by (simp add: obtainOperation_scan [OF given seed target])
next
  assume "\<forall>n<1024. \<exists>k.
        PrivateKeyFromSeedAndPath env sd (''m/12381/3600/'' @ decimal n @ ''/0/0'') = Inr k \<and>
        PublicKeyMarshal env k \<noteq> Pubkey vi"
  then have "scanValidatorKeys env c sd vi 0 g = (None, c, g)"
    by (rule scan_exhausted)
  then show "obtainOperation env c g = (None, c, g)"
    by (simp add: obtainOperation_scan [OF given seed target])
qed

theorem key_scan_stops_at_first_match_or_at_1024_witness:
  "obtainOperation stub_env (stub_scan_command 1024) (stub_globals 0 []) =
     (None, stub_scan_command 1024, stub_globals 0 []) \<and>
   fst (obtainOperation stub_env (stub_scan_command 1023) (stub_globals 0 [])) = None \<and>
   map_option Message
     (signedOperation (fst (snd (obtainOperation stub_env (stub_scan_command 1023) (stub_globals 0 []))))) =
     Some \<lparr>Epoch = 5, ValidatorIndex = 9\<rparr>"
proof -
  let ?g = "stub_globals 0 []"
  let ?key = "\<lambda>j. rev (stub_bytes (''m/12381/3600/'' @ decimal j @ ''/0/0''))"
  have given: "mnemonic (stub_scan_command j) \<noteq> []" "path (stub_scan_command j) = []"
    "validator (stub_scan_command j) \<noteq> []" for j
    by (simp_all add: stub_scan_command_def stub_command_def)
  have seed: "SeedFromMnemonic stub_env (mnemonic (stub_scan_command j)) = Inr (stub_bytes ''abandon'')" for j
    by (simp add: stub_scan_command_def stub_env_def)
  have target: "FetchValidatorInfo stub_env (chainInfo (stub_scan_command j))
      (validator (stub_scan_command j)) = Inr \<lparr>Index = 9, Pubkey = ?key j\<rparr>" for j
    by (simp add: stub_scan_command_def stub_env_def stub_FetchValidatorInfo_def decimal_9)
  have derive: "PrivateKeyFromSeedAndPath stub_env sd p = Inr (stub_bytes p)" for sd p
    by (simp add: stub_env_def)
  have pub: "PublicKeyMarshal stub_env k = rev k" for k
    by (simp add: stub_env_def)
  have miss: "\<forall>n<j. \<exists>k.
      PrivateKeyFromSeedAndPath stub_env (stub_bytes ''abandon'')
        (''m/12381/3600/'' @ decimal n @ ''/0/0'') = Inr k \<and>
      PublicKeyMarshal stub_env k \<noteq> Pubkey \<lparr>Index = 9, Pubkey = ?key j\<rparr>" for j
    using stub_keys_differ by (simp add: derive pub)
  note scan = key_scan_stops_at_first_match_or_at_1024 [OF given seed target]
  have none: "obtainOperation stub_env (stub_scan_command 1024) ?g = (None, stub_scan_command 1024, ?g)"
    using scan [of 1024 ?g, THEN conjunct2, THEN mp, OF miss [of 1024]] .
  have hit: "1023 < (1024 :: nat) \<and>
        (\<forall>n<1023. \<exists>k.
           PrivateKeyFromSeedAndPath stub_env (stub_bytes ''abandon'')
             (''m/12381/3600/'' @ decimal n @ ''/0/0'') = Inr k \<and>
           PublicKeyMarshal stub_env k \<noteq> Pubkey \<lparr>Index = 9, Pubkey = ?key 1023\<rparr>) \<and>
        PrivateKeyFromSeedAndPath stub_env (stub_bytes ''abandon'')
          (''m/12381/3600/'' @ decimal 1023 @ ''/0/0'') =
          Inr (stub_bytes (''m/12381/3600/'' @ decimal 1023 @ ''/0/0'')) \<and>
        PublicKeyMarshal stub_env (stub_bytes (''m/12381/3600/'' @ decimal 1023 @ ''/0/0'')) =
          Pubkey \<lparr>Index = 9, Pubkey = ?key 1023\<rparr>"
    using miss [of 1023] by (simp add: derive pub)
  have f0: "viper_fuzziness (snd (InitializeFuzzingSeed ?g)) \<le> 0"
    by (simp add: stub_globals_def)
  obtain s g0 where init: "InitializeFuzzingSeed ?g = (s, g0)"
    by (cases "InitializeFuzzingSeed ?g")
  have g0: "viper_fuzziness g0 \<le> 0"
    using f0 init by simp
  have found: "obtainOperation stub_env (stub_scan_command 1023) ?g =
      (case ParseAccount stub_env (mnemonic (stub_scan_command 1023))
              (Some [''m/12381/3600/'' @ decimal 1023 @ ''/0/0'']) True of
         Inl e \<Rightarrow> (Some (Wrap e ''failed to create withdrawal account''), stub_scan_command 1023, ?g)
       | Inr validatorAccount \<Rightarrow>
           generateOperationFromAccount stub_env (stub_scan_command 1023)
             \<lparr>Index = 9, Pubkey = ?key 1023\<rparr> validatorAccount
             (ChainEpoch (chainInfo (stub_scan_command 1023))) ?g)"
    using scan [of 1023 ?g, THEN conjunct1, THEN spec, THEN spec, THEN mp, OF hit] .
  have acct: "ParseAccount stub_env m (Some [p]) True = Inr (stub_bytes p)" for m p
    by (simp add: stub_env_def stub_ParseAccount_def)
  have env: "BestPublicKey stub_env a = Inr (rev a)"
    "VoluntaryExit_HashTreeRoot stub_env m = Inr [ucast (Epoch m), ucast (ValidatorIndex m)]"
    "SignRoot stub_env a r d = Inr (rev a @ r @ d)" for a m r d
    by (simp_all add: stub_env_def)
  have epoch: "ChainEpoch (chainInfo (stub_scan_command 1023)) = 5"
    by (simp add: stub_scan_command_def stub_chainInfo_def)
  show ?thesis
    using g0
    by (simp add: none found acct epoch generateOperationFromAccount_def createSignedOperation_def
        init env fuzzExitMessage_zero fuzzExitMessageWithRoot_zero fuzzExitMessageWithSignature_zero)
qed

subsection \<open>Claims about the workflow\<close>



text \<open>
  Claim C3. When the scan for a mnemonic and a validator goes through all 1024
  indices with no match, the obtain step returns no error and leaves the receiver as
  it is, so that a signed operation that was nil stays nil; the validation that
  follows reports success; and unless the run is offline or asks for JSON output, the
  run goes on to the broadcast with the nil operation: with a client that submits,
  \<^verbatim>\<open>SubmitVoluntaryExit\<close> is called on nil and its answer is the result of the
  run.
\<close>

theorem exhausted_scan_then_broadcast_of_nil:
  assumes given: "mnemonic c \<noteq> ''''" "path c = ''''" "validator c \<noteq> ''''"
    and nil: "signedOperation c = None"
    and start: "setupCommand env c = (None, c1)"
    and info: "obtainChainInfo env c1 = Inr ci"
    and mode: "\<not> prepareOffline c"
    and dom: "generateDomain env (c1\<lparr>chainInfo := ci\<rparr>) = (None, c3)"
    and seed: "SeedFromMnemonic env (mnemonic c) = Inr sd"
    and target: "FetchValidatorInfo env ci (validator c) = Inr vi"
    and miss: "\<forall>n<1024. \<exists>k.
        PrivateKeyFromSeedAndPath env sd (''m/12381/3600/'' @ decimal n @ ''/0/0'') = Inr k \<and>
        PublicKeyMarshal env k \<noteq> Pubkey vi"
  shows "obtainOperation env c3 g = (None, c3, g) \<and> signedOperation c3 = None \<and>
    validateOperation c3 = (True, '''') \<and>
    (json c \<or> offline c \<longrightarrow> process env c g = (None, c3, g)) \<and>
    (\<not> json c \<and> \<not> offline c \<longrightarrow>
       process env c g = broadcastOperation c3 g \<and>
       (\<exists>cl. consensusClient c3 = Some cl \<and>
          (isVoluntaryExitSubmitter cl \<longrightarrow>
             process env c g =
               (SubmitVoluntaryExit cl None, c3, g\<lparr>submitted := None # submitted g\<rparr>))))"
proof -
  from setupCommand_shape [OF start] obtain cl ct where
    c1: "c1 = c\<lparr>consensusClient := cl, chainTime := ct\<rparr>"
    by blast
  from generateDomain_shape [OF dom] obtain d where
    c3: "c3 = c1\<lparr>chainInfo := ci, domain := d\<rparr>"
    by auto
  have in3: "mnemonic c3 \<noteq> ''''" "path c3 = ''''" "validator c3 \<noteq> ''''"
    using given by (simp_all add: c1 c3)
  have seed3: "SeedFromMnemonic env (mnemonic c3) = Inr sd"
    using seed by (simp add: c1 c3)
  have target3: "FetchValidatorInfo env (chainInfo c3) (validator c3) = Inr vi"
    using target by (simp add: c1 c3)
  have ob: "obtainOperation env c3 g = (None, c3, g)"
    using scan_exhausted [OF miss] by (simp add: obtainOperation_scan [OF in3 seed3 target3])
  have nil3: "signedOperation c3 = None"
    using nil by (simp add: c1 c3)
  have v: "validateOperation c3 = (True, '''')"
    by (simp add: validateOperation_def)
  note run = process_after_setup [OF start info mode dom ob]
  have client: "\<not> offline c \<Longrightarrow> \<exists>cl. consensusClient c3 = Some cl"
    using setupCommand_online_client [OF start] by (auto simp: c3)
  have online: "process env c g = broadcastOperation c3 g \<and>
       (\<exists>cl. consensusClient c3 = Some cl \<and>
          (isVoluntaryExitSubmitter cl \<longrightarrow>
             process env c g =
               (SubmitVoluntaryExit cl None, c3, g\<lparr>submitted := None # submitted g\<rparr>)))"
    if "\<not> json c \<and> \<not> offline c"
  proof -
    from that client obtain cl where cl: "consensusClient c3 = Some cl"
      by blast
    from that run have p: "process env c g = broadcastOperation c3 g"
      by simp
    with cl nil3 show ?thesis
      by (simp add: broadcastOperation_def)
  qed
  from ob nil3 v run online show ?thesis
    by simp
qed

theorem exhausted_scan_then_broadcast_of_nil_witness:
  "fst (process stub_env (stub_command\<lparr>mnemonic := ''abandon'', validator := ''7''\<rparr>)
          (stub_globals 0 [])) = None \<and>
   signedOperation (fst (snd (process stub_env
          (stub_command\<lparr>mnemonic := ''abandon'', validator := ''7''\<rparr>) (stub_globals 0 [])))) = None \<and>
   submitted (snd (snd (process stub_env
          (stub_command\<lparr>mnemonic := ''abandon'', validator := ''7''\<rparr>) (stub_globals 0 [])))) = [None]"
proof -
  let ?c = "stub_command\<lparr>mnemonic := ''abandon'', validator := ''7''\<rparr>"
  let ?c1 = "?c\<lparr>consensusClient := Some stub_client, chainTime := Some ()\<rparr>"
  let ?c3 = "snd (generateDomain stub_env (?c1\<lparr>chainInfo := stub_chainInfo\<rparr>))"
  let ?g = "stub_globals 0 []"
  have given: "mnemonic ?c \<noteq> []" "path ?c = []" "validator ?c \<noteq> []"
    by (simp_all add: stub_command_def)
  have nil: "signedOperation ?c = None"
    by (simp add: stub_command_def)
  have start: "setupCommand stub_env ?c = (None, ?c1)"
    by (simp add: setupCommand_def stub_env_def stub_command_def stub_client_def)
  have info: "obtainChainInfo stub_env ?c1 = Inr stub_chainInfo"
    by (simp add: stub_env_def)
  have mode: "\<not> prepareOffline ?c"
    by (simp add: stub_command_def)
  have "fst (generateDomain stub_env (?c1\<lparr>chainInfo := stub_chainInfo\<rparr>)) = None"
    by code_simp
  then have dom: "generateDomain stub_env (?c1\<lparr>chainInfo := stub_chainInfo\<rparr>) = (None, ?c3)"
    by (metis prod.collapse)
  have seed: "SeedFromMnemonic stub_env (mnemonic ?c) = Inr (stub_bytes ''abandon'')"
    by (simp add: stub_env_def)
  have target: "FetchValidatorInfo stub_env stub_chainInfo (validator ?c) = Inr stub_validator"
    by (simp add: stub_env_def stub_FetchValidatorInfo_def stub_chainInfo_def stub_validator_def
        decimal_7)
  have long: "rev (stub_bytes (''m/12381/3600/'' @ decimal n @ ''/0/0'')) \<noteq> Pubkey stub_validator" for n
  proof
    assume "rev (stub_bytes (''m/12381/3600/'' @ decimal n @ ''/0/0'')) = Pubkey stub_validator"
    then have "length (rev (stub_bytes (''m/12381/3600/'' @ decimal n @ ''/0/0''))) =
        length (Pubkey stub_validator)"
      by simp
    then show False
      by (simp add: stub_bytes_def stub_validator_def)
  qed
  have miss: "\<forall>n<1024. \<exists>k.
        PrivateKeyFromSeedAndPath stub_env (stub_bytes ''abandon'')
          (''m/12381/3600/'' @ decimal n @ ''/0/0'') = Inr k \<and>
        PublicKeyMarshal stub_env k \<noteq> Pubkey stub_validator"
    using long by (simp add: stub_env_def)
  have modes: "\<not> json ?c \<and> \<not> offline ?c"
    by (simp add: stub_command_def)
  from generateDomain_shape [OF dom] obtain d where
    shape: "?c3 = ?c1\<lparr>chainInfo := stub_chainInfo, domain := d\<rparr>"
    by auto
  have client: "consensusClient ?c3 = Some stub_client"
    by (subst shape) simp
  from exhausted_scan_then_broadcast_of_nil
         [OF given nil start info mode dom seed target miss, of ?g]
  have nil3: "signedOperation ?c3 = None"
    and online: "\<exists>cl. consensusClient ?c3 = Some cl \<and>
          (isVoluntaryExitSubmitter cl \<longrightarrow>
             process stub_env ?c ?g =
               (SubmitVoluntaryExit cl None, ?c3, ?g\<lparr>submitted := None # submitted ?g\<rparr>))"
    using modes by blast+
  from online client have "process stub_env ?c ?g =
      (SubmitVoluntaryExit stub_client None, ?c3, ?g\<lparr>submitted := None # submitted ?g\<rparr>)"
    by (simp add: stub_client_def)
  with nil3 show ?thesis
    by (simp add: stub_client_def stub_globals_def)
qed







subsection \<open>Claims about the dispatch over the input sources\<close>

text \<open>
  Claim C4 says that the obtain step accepts the input only when exactly one source is
  given and fails on a conflicting combination rather than choosing one. The code
  chooses: with a private key and, beside it, a validator that the chain does not
  know, the obtain step takes the private key, never reads the validator, and returns
  an operation with no error.
\<close>

theorem conflicting_inputs_are_not_rejected_counterexample:
  "fst (obtainOperation stub_env
          (stub_command\<lparr>privateKey := ''0x010203'', validator := ''12345''\<rparr>) (stub_globals 0 [])) =
     None \<and>
   map_option Message (signedOperation (fst (snd (obtainOperation stub_env
          (stub_command\<lparr>privateKey := ''0x010203'', validator := ''12345''\<rparr>) (stub_globals 0 []))))) =
     Some \<lparr>Epoch = 5, ValidatorIndex = 7\<rparr> \<and>
   FetchValidatorInfo stub_env stub_chainInfo ''12345'' = Inl (New ''unknown validator'')"
  by code_simp

text \<open>
  Claim C4, as amended. The obtain step takes the input sources by a fixed
  precedence. With no private key, no validator, and not both a mnemonic and a path,
  it reads the supplied input or else the file, and wraps the error of a failure. In
  every other case a mnemonic with a path takes the mnemonic-and-path route whatever
  else is given; a mnemonic with a validator and no path the scan; a mnemonic with
  neither, which is then a mnemonic with a private key, fails with ``mnemonic must
  be supplied with either a path or validator''; without a mnemonic a private key
  takes the private-key route whatever the validator; and a validator alone the
  account route. No other combination is refused by the dispatch.
\<close>

theorem input_sources_are_taken_by_precedence:
  "obtainOperation env c g =
     (if (mnemonic c = '''' \<or> path c = '''') \<and> privateKey c = '''' \<and> validator c = ''''
      then (case obtainOperationFromFileOrInput env c of
              (None, c') \<Rightarrow> (None, c', g)
            | (Some e, c') \<Rightarrow>
                (Some (Wrap e
                   (if signedOperationInput c' \<noteq> ''''
                    then ''failed to obtain supplied signed operation''
                    else ''no account, mnemonic or private key specified, and no '' @
                         ''exit-operation.json'' @ '' file loaded'')), c', g))
      else if mnemonic c \<noteq> '''' \<and> path c \<noteq> ''''
        then generateOperationFromMnemonicAndPath env c g
      else if mnemonic c \<noteq> '''' \<and> validator c \<noteq> ''''
        then generateOperationFromMnemonicAndValidator env c g
      else if mnemonic c \<noteq> ''''
        then (Some (New ''mnemonic must be supplied with either a path or validator''), c, g)
      else if privateKey c \<noteq> '''' then generateOperationFromPrivateKey env c g
      else generateOperationFromValidator env c g) \<and>
   (mnemonic c \<noteq> '''' \<and> path c \<noteq> '''' \<longrightarrow>
      obtainOperation env c g = generateOperationFromMnemonicAndPath env c g) \<and>
   (mnemonic c = '''' \<and> privateKey c \<noteq> '''' \<longrightarrow>
      obtainOperation env c g = generateOperationFromPrivateKey env c g)"
  by (simp add: obtainOperation_def exitOperationFilename_def split: prod.splits option.splits)

theorem input_sources_are_taken_by_precedence_witness:
  "obtainOperation stub_env (stub_command\<lparr>mnemonic := ''abandon'', privateKey := ''0x010203''\<rparr>)
     (stub_globals 0 []) =
     (Some (New ''mnemonic must be supplied with either a path or validator''),
      stub_command\<lparr>mnemonic := ''abandon'', privateKey := ''0x010203''\<rparr>, stub_globals 0 []) \<and>
   obtainOperation stub_env (stub_command\<lparr>privateKey := ''0x010203'', validator := ''12345''\<rparr>)
     (stub_globals 0 []) =
     generateOperationFromPrivateKey stub_env
       (stub_command\<lparr>privateKey := ''0x010203'', validator := ''12345''\<rparr>) (stub_globals 0 [])"
proof -
  let ?a = "stub_command\<lparr>mnemonic := ''abandon'', privateKey := ''0x010203''\<rparr>"
  let ?b = "stub_command\<lparr>privateKey := ''0x010203'', validator := ''12345''\<rparr>"
  let ?g = "stub_globals 0 []"
  have b: "mnemonic ?b = [] \<and> privateKey ?b \<noteq> []"
    by (simp add: stub_command_def)
  from input_sources_are_taken_by_precedence [of stub_env ?a ?g, THEN conjunct1]
  have first: "obtainOperation stub_env ?a ?g =
      (Some (New ''mnemonic must be supplied with either a path or validator''), ?a, ?g)"
    by (simp add: stub_command_def)
  from input_sources_are_taken_by_precedence
         [of stub_env ?b ?g, THEN conjunct2, THEN conjunct2, THEN mp, OF b]
  have second: "obtainOperation stub_env ?b ?g = generateOperationFromPrivateKey stub_env ?b ?g" .
  from first second show ?thesis
    by simp
qed

end
